theory Spec2Isabelle
  imports Complex_Main "HOL-Library.Code_Target_Nat"
begin

section \<open>JavaScript strings\<close>

text \<open>
  A JavaScript string is a sequence of UTF-16 code units. The parsers compare single
  code units beyond Latin-1 (the typographic dashes), so a code unit is a natural
  number here and an ASCII literal is written \<open>js ''...''\<close>.
\<close>

type_synonym code_unit = nat
type_synonym jstring = "code_unit list"

definition js :: "string \<Rightarrow> jstring" where
  "js s = map of_char s"

text \<open>
  \<open>String.prototype.toLowerCase\<close>, exact on the Latin-1 range (code units below 256:
  \<open>A-Z\<close> and the accented capitals \<open>U+00C0-U+00DE\<close> without the multiplication sign);
  code units above that range are left as they are.
\<close>

definition lowerUnit :: "code_unit \<Rightarrow> code_unit" where
  "lowerUnit c =
     (if (65 \<le> c \<and> c \<le> 90) \<or> (192 \<le> c \<and> c \<le> 222 \<and> c \<noteq> 215) then c + 32 else c)"

definition toLowerCase :: "jstring \<Rightarrow> jstring" where
  "toLowerCase s = map lowerUnit s"

text \<open>White space and line terminators of ECMAScript: what \<open>trim\<close> strips and \<open>\s\<close> matches.\<close>

definition isWhiteSpace :: "code_unit \<Rightarrow> bool" where
  "isWhiteSpace c =
     ((9 \<le> c \<and> c \<le> 13) \<or> c = 32 \<or> c = 160 \<or> c = 5760 \<or> (8192 \<le> c \<and> c \<le> 8202)
       \<or> c = 8232 \<or> c = 8233 \<or> c = 8239 \<or> c = 8287 \<or> c = 12288 \<or> c = 65279)"

definition trim :: "jstring \<Rightarrow> jstring" where
  "trim s = rev (dropWhile isWhiteSpace (rev (dropWhile isWhiteSpace s)))"

fun startsWith :: "jstring \<Rightarrow> jstring \<Rightarrow> bool" where
  "startsWith s [] = True"
| "startsWith [] (k # ks) = False"
| "startsWith (c # cs) (k # ks) = (c = k \<and> startsWith cs ks)"

definition endsWith :: "jstring \<Rightarrow> jstring \<Rightarrow> bool" where
  "endsWith s k = startsWith (rev s) (rev k)"

fun includes_s :: "jstring \<Rightarrow> jstring \<Rightarrow> bool" where
  "includes_s [] k = (k = [])"
| "includes_s (c # cs) k = (startsWith (c # cs) k \<or> includes_s cs k)"

text \<open>\<open>s.split(sep)\<close> for a separator of one code unit.\<close>

fun split_unit :: "code_unit \<Rightarrow> jstring \<Rightarrow> jstring list" where
  "split_unit sep [] = [[]]"
| "split_unit sep (c # cs) =
     (if c = sep then [] # split_unit sep cs
      else (case split_unit sep cs of [] \<Rightarrow> [[c]] | w # ws \<Rightarrow> (c # w) # ws))"

text \<open>
  \<open>s.split(/\s+/)\<close>: the pieces between maximal runs of white space; a run at either
  end leaves an empty piece there.
\<close>

function split_ws :: "jstring \<Rightarrow> jstring list" where
  "split_ws [] = [[]]"
| "split_ws (c # cs) =
     (if isWhiteSpace c then [] # split_ws (dropWhile isWhiteSpace cs)
      else (case split_ws cs of [] \<Rightarrow> [[c]] | w # ws \<Rightarrow> (c # w) # ws))"
  by pat_completeness auto
termination
  by (relation "measure length") (auto simp: le_imp_less_Suc length_dropWhile_le)

text \<open>\<open>s.replace(/\s+/g, ' ')\<close>: every maximal run of white space becomes one space.\<close>

function collapse_ws :: "jstring \<Rightarrow> jstring" where
  "collapse_ws [] = []"
| "collapse_ws (c # cs) =
     (if isWhiteSpace c then 32 # collapse_ws (dropWhile isWhiteSpace cs)
      else c # collapse_ws cs)"
  by pat_completeness auto
termination
  by (relation "measure length") (auto simp: le_imp_less_Suc length_dropWhile_le)

section \<open>Transactions\<close>

text \<open>
  The two \<open>interface Transaction\<close>: the one of \<open>pdf-transaction-parser.ts\<close> has seven
  fields, the one of \<open>simple-transaction-parser.ts\<close>, which the store uses, has two
  optional fields more (\<open>None\<close> when the property is absent). An amount is a finite
  JavaScript number, taken as an exact rational (no binary rounding); a date is a valid
  \<open>Date\<close>, held as its time value in milliseconds since the epoch.
\<close>

datatype transaction_type = Income | Expense

record pdf_transaction =
  id_t :: jstring
  date :: int
  description :: jstring
  amount :: rat
  category :: jstring
  type_t :: transaction_type
  source :: jstring

record transaction = pdf_transaction +
  originalAmount :: "rat option"
  confidence :: "rat option"

section \<open>The categorizer (\<open>transaction-categorizer.ts\<close>)\<close>

record CategoryRule =
  rule_keywords :: "jstring list"
  rule_category :: jstring
  priority :: rat
  rule_type :: "transaction_type option"

text \<open>
  The categorizer is a singleton whose two rule tables \<open>addCustomRule\<close> may extend at run
  time, so the tables are its state.
\<close>

record categorizer =
  expenseRules :: "CategoryRule list"
  incomeRules :: "CategoryRule list"

definition default_expenseRules :: "CategoryRule list" where
  "default_expenseRules = [
    \<lparr>rule_keywords = map js
       [''restaurant'', ''cafe'', ''coffee'', ''pizza'', ''burger'', ''taco'', ''sushi'',
        ''deli'', ''mcdonald'', ''burger king'', ''kfc'', ''subway'', ''chipotle'',
        ''panera'', ''starbucks'', ''dunkin'', ''dominos'', ''papa john'', ''taco bell'',
        ''wendy'', ''chick-fil-a'', ''olive garden'', ''applebee'', ''chili'', ''outback'',
        ''red lobster'', ''ihop'', ''denny'', ''food truck'', ''dining'', ''lunch'',
        ''dinner'', ''breakfast'', ''brunch'', ''takeout'', ''delivery'', ''uber eats'',
        ''doordash'', ''grubhub'', ''postmates'', ''bistro'', ''grill'', ''pub'', ''bar'',
        ''tavern'', ''bakery'', ''ice cream'', ''yogurt''],
     rule_category = js ''Food & Dining'', priority = 9, rule_type = Some Expense\<rparr>,
    \<lparr>rule_keywords = map js
       [''gas'', ''fuel'', ''gasoline'', ''shell'', ''exxon'', ''bp'', ''chevron'',
        ''mobil'', ''uber'', ''lyft'', ''taxi'', ''cab'', ''parking'', ''park'', ''metro'',
        ''bus'', ''train'', ''subway'', ''transit'', ''toll'', ''bridge'', ''rental car'',
        ''car rental'', ''hertz'', ''enterprise'', ''avis'', ''budget'', ''airline'',
        ''flight'', ''airport'', ''delta'', ''american airlines'', ''united'',
        ''southwest'', ''jetblue'', ''auto repair'', ''mechanic'', ''oil change'',
        ''tire'', ''car wash'', ''inspection''],
     rule_category = js ''Transportation'', priority = 9, rule_type = Some Expense\<rparr>,
    \<lparr>rule_keywords = map js
       [''amazon'', ''walmart'', ''target'', ''costco'', ''sam club'', ''bj wholesale'',
        ''grocery'', ''supermarket'', ''safeway'', ''kroger'', ''publix'', ''whole foods'',
        ''trader joe'', ''aldi'', ''food lion'', ''giant'', ''stop shop'', ''wegmans'',
        ''shopping'', ''store'', ''mall'', ''outlet'', ''department store'', ''retail'',
        ''macy'', ''nordstrom'', ''sears'', ''jcpenney'', ''kohl'', ''tj maxx'',
        ''marshall'', ''best buy'', ''home depot'', ''lowe'', ''menards'',
        ''ace hardware'', ''pharmacy'', ''cvs'', ''walgreens'', ''rite aid'', ''drugstore''],
     rule_category = js ''Shopping'', priority = 8, rule_type = Some Expense\<rparr>,
    \<lparr>rule_keywords = map js
       [''electric'', ''electricity'', ''power'', ''utility'', ''water'', ''sewer'',
        ''gas bill'', ''natural gas'', ''internet'', ''cable'', ''phone'', ''cell'',
        ''mobile'', ''verizon'', ''att'', ''t-mobile'', ''sprint'', ''comcast'',
        ''xfinity'', ''spectrum'', ''cox'', ''directv'', ''dish'', ''satellite'',
        ''broadband'', ''insurance'', ''auto insurance'', ''car insurance'',
        ''home insurance'', ''health insurance'', ''life insurance'', ''geico'',
        ''state farm'', ''allstate'', ''progressive'', ''usaa'', ''liberty mutual''],
     rule_category = js ''Bills & Utilities'', priority = 9, rule_type = Some Expense\<rparr>,
    \<lparr>rule_keywords = map js
       [''netflix'', ''hulu'', ''disney'', ''amazon prime'', ''spotify'', ''apple music'',
        ''youtube'', ''movie'', ''theater'', ''cinema'', ''amc'', ''regal'', ''concert'',
        ''ticketmaster'', ''stubhub'', ''game'', ''gaming'', ''steam'', ''playstation'',
        ''xbox'', ''nintendo'', ''entertainment'', ''music'', ''streaming'',
        ''subscription'', ''gym'', ''fitness'', ''planet fitness'', ''la fitness'',
        ''24 hour fitness'', ''ymca'', ''crossfit'', ''yoga'', ''pilates'', ''spa'',
        ''massage''],
     rule_category = js ''Entertainment'', priority = 7, rule_type = Some Expense\<rparr>,
    \<lparr>rule_keywords = map js
       [''doctor'', ''physician'', ''hospital'', ''clinic'', ''medical'', ''health'',
        ''dental'', ''dentist'', ''orthodontist'', ''vision'', ''optometrist'',
        ''prescription'', ''pharmacy'', ''medicine'', ''drug'', ''co-pay'', ''copay'',
        ''deductible'', ''lab'', ''x-ray'', ''mri'', ''ct scan'', ''surgery'',
        ''emergency room'', ''urgent care'', ''physical therapy'', ''chiropractor'',
        ''mental health'', ''therapy'', ''counseling'', ''psychiatrist''],
     rule_category = js ''Healthcare'', priority = 8, rule_type = Some Expense\<rparr>,
    \<lparr>rule_keywords = map js
       [''hotel'', ''motel'', ''resort'', ''inn'', ''lodge'', ''airbnb'', ''vrbo'',
        ''marriott'', ''hilton'', ''hyatt'', ''sheraton'', ''holiday inn'', ''travel'',
        ''vacation'', ''trip'', ''booking'', ''expedia'', ''kayak'', ''priceline'',
        ''orbitz'', ''travelocity'', ''cruise'', ''carnival'', ''royal caribbean'',
        ''norwegian'', ''disney cruise''],
     rule_category = js ''Travel'', priority = 7, rule_type = Some Expense\<rparr>,
    \<lparr>rule_keywords = map js
       [''school'', ''university'', ''college'', ''tuition'', ''education'',
        ''student loan'', ''books'', ''textbook'', ''supplies'', ''course'', ''class'',
        ''training'', ''certification'', ''workshop'', ''seminar'', ''online course'',
        ''udemy'', ''coursera'', ''masterclass''],
     rule_category = js ''Education'', priority = 7, rule_type = Some Expense\<rparr>,
    \<lparr>rule_keywords = map js
       [''haircut'', ''salon'', ''barber'', ''nail'', ''manicure'', ''pedicure'',
        ''beauty'', ''cosmetics'', ''makeup'', ''skincare'', ''personal care'',
        ''dry cleaning'', ''laundry'', ''tailor'', ''alteration''],
     rule_category = js ''Personal Care'', priority = 6, rule_type = Some Expense\<rparr>,
    \<lparr>rule_keywords = map js
       [''home improvement'', ''furniture'', ''appliance'', ''garden'', ''lawn'',
        ''landscaping'', ''hardware'', ''paint'', ''tools'', ''renovation'', ''repair'',
        ''maintenance'', ''cleaning'', ''pest control'', ''security'', ''rent'',
        ''mortgage'', ''property tax'', ''hoa'', ''homeowners association''],
     rule_category = js ''Home & Garden'', priority = 6, rule_type = Some Expense\<rparr>,
    \<lparr>rule_keywords = map js
       [''fee'', ''charge'', ''penalty'', ''fine'', ''atm'', ''overdraft'', ''nsf'',
        ''maintenance'', ''service charge'', ''late fee'', ''interest charge'',
        ''annual fee'', ''monthly fee'', ''transaction fee'', ''foreign transaction'',
        ''cash advance'', ''balance transfer'', ''wire fee'', ''stop payment''],
     rule_category = js ''Fees & Charges'', priority = 10, rule_type = Some Expense\<rparr>,
    \<lparr>rule_keywords = map js
       [''office'', ''supplies'', ''business'', ''conference'', ''meeting'', ''software'',
        ''subscription'', ''professional'', ''consulting'', ''accounting'', ''legal'',
        ''marketing'', ''advertising'', ''printing''],
     rule_category = js ''Business'', priority = 6, rule_type = Some Expense\<rparr>,
    \<lparr>rule_keywords = map js
       [''gift'', ''present'', ''donation'', ''charity'', ''nonprofit'', ''church'',
        ''religious'', ''contribution'', ''fundraiser'', ''wedding'', ''birthday'',
        ''anniversary'', ''holiday''],
     rule_category = js ''Gifts & Donations'', priority = 5, rule_type = Some Expense\<rparr>]"

definition default_incomeRules :: "CategoryRule list" where
  "default_incomeRules = [
    \<lparr>rule_keywords = map js
       [''salary'', ''payroll'', ''wage'', ''pay'', ''direct deposit'', ''dd'',
        ''employer'', ''work'', ''job'', ''income'', ''earnings'', ''compensation'',
        ''bonus'', ''commission'', ''overtime'', ''tips'', ''gratuity''],
     rule_category = js ''Salary'', priority = 10, rule_type = Some Income\<rparr>,
    \<lparr>rule_keywords = map js
       [''freelance'', ''contract'', ''consulting'', ''gig'', ''project'', ''client'',
        ''invoice'', ''payment'', ''professional services'', ''independent contractor'',
        ''1099'', ''self employed''],
     rule_category = js ''Freelance'', priority = 9, rule_type = Some Income\<rparr>,
    \<lparr>rule_keywords = map js
       [''dividend'', ''interest'', ''investment'', ''stock'', ''bond'', ''mutual fund'',
        ''etf'', ''capital gains'', ''portfolio'', ''brokerage'', ''trading'', ''crypto'',
        ''cryptocurrency'', ''bitcoin'', ''ethereum'', ''retirement'', ''401k'', ''ira''],
     rule_category = js ''Investment Returns'', priority = 8, rule_type = Some Income\<rparr>,
    \<lparr>rule_keywords = map js
       [''business income'', ''sales'', ''revenue'', ''customer payment'',
        ''business deposit'', ''merchant'', ''stripe'', ''paypal business'', ''square'',
        ''invoice payment'', ''business transfer''],
     rule_category = js ''Business Income'', priority = 7, rule_type = Some Income\<rparr>,
    \<lparr>rule_keywords = map js
       [''refund'', ''return'', ''credit'', ''reimbursement'', ''rebate'', ''cashback'',
        ''cash back'', ''reward'', ''points redemption'', ''adjustment'', ''reversal'',
        ''chargeback'', ''dispute resolution''],
     rule_category = js ''Refunds'', priority = 6, rule_type = Some Income\<rparr>,
    \<lparr>rule_keywords = map js
       [''rent'', ''rental'', ''tenant'', ''property income'', ''lease'', ''airbnb host'',
        ''vrbo host'', ''property management''],
     rule_category = js ''Rental Income'', priority = 6, rule_type = Some Income\<rparr>]"

definition getInstance :: categorizer where
  "getInstance = \<lparr>expenseRules = default_expenseRules, incomeRules = default_incomeRules\<rparr>"

text \<open>
  \<open>calculateMatchScore\<close>: a keyword found in the description adds 3 when it is also one of
  the description's white-space separated words, and 1 otherwise.
\<close>

fun calculateMatchScore_loop :: "jstring \<Rightarrow> jstring list \<Rightarrow> jstring list \<Rightarrow> nat \<Rightarrow> nat" where
  "calculateMatchScore_loop desc ws [] score = score"
| "calculateMatchScore_loop desc ws (keyword # rest) score =
     calculateMatchScore_loop desc ws rest
       (if includes_s desc keyword
        then (if keyword \<in> set ws then score + 3 else score + 1)
        else score)"

definition calculateMatchScore :: "jstring \<Rightarrow> jstring list \<Rightarrow> nat" where
  "calculateMatchScore desc kws = calculateMatchScore_loop desc (split_ws desc) kws 0"

text \<open>\<open>bestMatch\<close> of \<open>categorizeTransaction\<close>: category, score and priority, or \<open>null\<close>.\<close>

fun categorize_loop ::
  "jstring \<Rightarrow> CategoryRule list \<Rightarrow> (jstring \<times> nat \<times> rat) option \<Rightarrow> (jstring \<times> nat \<times> rat) option"
where
  "categorize_loop desc [] bestMatch = bestMatch"
| "categorize_loop desc (rule # rules) bestMatch =
     (let matchScore = calculateMatchScore desc (rule_keywords rule) in
      if matchScore > 0 then
        (let totalScore = of_nat matchScore * priority rule in
         if (case bestMatch of None \<Rightarrow> True
             | Some (c, score, prio) \<Rightarrow> totalScore > of_nat score * prio)
         then categorize_loop desc rules (Some (rule_category rule, matchScore, priority rule))
         else categorize_loop desc rules bestMatch)
      else categorize_loop desc rules bestMatch)"

text \<open>The optional \<open>type\<close> argument is \<open>None\<close> when the caller leaves it out.\<close>

definition categorizeTransaction ::
  "categorizer \<Rightarrow> jstring \<Rightarrow> rat \<Rightarrow> transaction_type option \<Rightarrow> jstring" where
  "categorizeTransaction cz description' amount' type' =
     (let desc = trim (toLowerCase description');
          transactionType =
            (case type' of Some t \<Rightarrow> t | None \<Rightarrow> (if amount' > 0 then Income else Expense));
          rules = (if transactionType = Income then incomeRules cz else expenseRules cz)
      in case categorize_loop desc rules None of
           Some (c, score, prio) \<Rightarrow> c
         | None \<Rightarrow> (if transactionType = Income then js ''Other Income'' else js ''Other''))"

section \<open>The transaction store (\<open>TransactionStore\<close>)\<close>

text \<open>
  The store owns the transaction list and the debit card balance. Saving to local storage
  and notifying the listeners change neither; they are recorded in the order they happen.
\<close>

datatype store_event = Saved | Notified

record store =
  transactions :: "transaction list"
  debitCardBalance :: rat
  events :: "store_event list"

definition save_and_notify :: "store \<Rightarrow> store" where
  "save_and_notify s = s\<lparr>events := events s @ [Saved, Notified]\<rparr>"

subsection \<open>Duplicate test\<close>

text \<open>\<open>normalize\<close> inside \<open>calculateDescriptionSimilarity\<close>.\<close>

definition normalize :: "jstring \<Rightarrow> jstring" where
  "normalize str =
     trim (collapse_ws
       (filter (\<lambda>c. (97 \<le> c \<and> c \<le> 122) \<or> (48 \<le> c \<and> c \<le> 57) \<or> isWhiteSpace c)
          (toLowerCase str)))"

definition calculateDescriptionSimilarity :: "jstring \<Rightarrow> jstring \<Rightarrow> rat" where
  "calculateDescriptionSimilarity desc1 desc2 =
     (let normalized1 = normalize desc1; normalized2 = normalize desc2 in
      if normalized1 = normalized2 then 1
      else
        (let words1 = filter (\<lambda>w. length w > 2) (split_unit 32 normalized1);
             words2 = filter (\<lambda>w. length w > 2) (split_unit 32 normalized2)
         in if words1 = [] \<and> words2 = [] then 1
            else if words1 = [] \<or> words2 = [] then 0
            else
              (let commonWords = filter (\<lambda>word. word \<in> set words2) words1;
                   totalWords = length (remdups (words1 @ words2))
               in of_nat (length commonWords) / of_nat totalWords)))"

text \<open>The callback of \<open>this.transactions.some\<close> in \<open>isDuplicateTransaction\<close>.\<close>

definition duplicate_of :: "transaction \<Rightarrow> transaction \<Rightarrow> bool" where
  "duplicate_of newTransaction existing =
     (let dateThreshold = 24 * 60 * 60 * 1000;
          amountThreshold = 1 / 100;
          dateDiff = \<bar>date existing - date newTransaction\<bar> in
      if dateDiff > dateThreshold then False
      else
        (let amountDiff = \<bar>amount existing - amount newTransaction\<bar> in
         if amountDiff > amountThreshold then False
         else
           (let similarity =
                  calculateDescriptionSimilarity (description existing) (description newTransaction)
            in if similarity < 8 / 10 then False
               else if type_t existing \<noteq> type_t newTransaction then False
               else True)))"

definition isDuplicateTransaction :: "store \<Rightarrow> transaction \<Rightarrow> bool" where
  "isDuplicateTransaction s newTransaction =
     list_ex (duplicate_of newTransaction) (transactions s)"

subsection \<open>Adding, updating and deleting\<close>

text \<open>
  The loop of \<open>addTransactions\<close>: each new transaction is given the categorizer's category
  and is kept unless the store, as it was before the call, holds a duplicate of it.
\<close>

fun addTransactions_loop ::
  "categorizer \<Rightarrow> store \<Rightarrow> transaction list \<Rightarrow> transaction list \<Rightarrow> transaction list" where
  "addTransactions_loop cz s [] validTransactions = validTransactions"
| "addTransactions_loop cz s (t # rest) validTransactions =
     (let category' = categorizeTransaction cz (description t) (amount t) (Some (type_t t));
          t' = t\<lparr>category := category'\<rparr>
      in if \<not> isDuplicateTransaction s t'
         then addTransactions_loop cz s rest (validTransactions @ [t'])
         else addTransactions_loop cz s rest validTransactions)"

definition addTransactions :: "categorizer \<Rightarrow> store \<Rightarrow> transaction list \<Rightarrow> store" where
  "addTransactions cz s newTransactions =
     (let validTransactions = addTransactions_loop cz s newTransactions [] in
      if length validTransactions > 0
      then save_and_notify (s\<lparr>transactions := transactions s @ validTransactions\<rparr>)
      else s)"

definition deleteTransaction :: "store \<Rightarrow> jstring \<Rightarrow> store" where
  "deleteTransaction s i =
     save_and_notify (s\<lparr>transactions := filter (\<lambda>t. id_t t \<noteq> i) (transactions s)\<rparr>)"

text \<open>
  \<open>Partial<Transaction>\<close>: a field is \<open>None\<close> when the update does not carry it. For the
  two optional fields of a transaction, \<open>Some None\<close> carries \<open>undefined\<close>.
\<close>

record transaction_update =
  u_id :: "jstring option"
  u_date :: "int option"
  u_description :: "jstring option"
  u_amount :: "rat option"
  u_category :: "jstring option"
  u_type :: "transaction_type option"
  u_source :: "jstring option"
  u_originalAmount :: "rat option option"
  u_confidence :: "rat option option"

text \<open>The object spread \<open>{ ...t, ...updates }\<close>.\<close>

definition spread :: "transaction \<Rightarrow> transaction_update \<Rightarrow> transaction" where
  "spread t u =
     \<lparr>id_t = (case u_id u of Some v \<Rightarrow> v | None \<Rightarrow> id_t t),
      date = (case u_date u of Some v \<Rightarrow> v | None \<Rightarrow> date t),
      description = (case u_description u of Some v \<Rightarrow> v | None \<Rightarrow> description t),
      amount = (case u_amount u of Some v \<Rightarrow> v | None \<Rightarrow> amount t),
      category = (case u_category u of Some v \<Rightarrow> v | None \<Rightarrow> category t),
      type_t = (case u_type u of Some v \<Rightarrow> v | None \<Rightarrow> type_t t),
      source = (case u_source u of Some v \<Rightarrow> v | None \<Rightarrow> source t),
      originalAmount = (case u_originalAmount u of Some v \<Rightarrow> v | None \<Rightarrow> originalAmount t),
      confidence = (case u_confidence u of Some v \<Rightarrow> v | None \<Rightarrow> confidence t)\<rparr>"

text \<open>\<open>findIndex\<close>: the first index whose element satisfies the predicate, \<open>None\<close> for -1.\<close>

fun findIndex :: "('a \<Rightarrow> bool) \<Rightarrow> 'a list \<Rightarrow> nat option" where
  "findIndex P [] = None"
| "findIndex P (x # xs) =
     (if P x then Some 0 else (case findIndex P xs of None \<Rightarrow> None | Some i \<Rightarrow> Some (Suc i)))"

definition updateTransaction :: "store \<Rightarrow> jstring \<Rightarrow> transaction_update \<Rightarrow> store" where
  "updateTransaction s i updates =
     (case findIndex (\<lambda>t. id_t t = i) (transactions s) of
        Some index \<Rightarrow>
          save_and_notify
            (s\<lparr>transactions := (transactions s)[index := spread (transactions s ! index) updates]\<rparr>)
      | None \<Rightarrow> s)"

text \<open>
  \<open>addManualTransaction\<close> takes a transaction without \<open>id\<close> and \<open>source\<close>; the new id
  comes from \<open>Math.random\<close> and is an argument here.
\<close>

record manual_transaction =
  m_date :: int
  m_description :: jstring
  m_amount :: rat
  m_category :: jstring
  m_type :: transaction_type
  m_originalAmount :: "rat option"
  m_confidence :: "rat option"

definition addManualTransaction ::
  "categorizer \<Rightarrow> jstring \<Rightarrow> store \<Rightarrow> manual_transaction \<Rightarrow> store" where
  "addManualTransaction cz generatedId s t =
     (let newTransaction =
            \<lparr>id_t = generatedId, date = m_date t, description = m_description t,
             amount = m_amount t, category = m_category t, type_t = m_type t,
             source = js ''manual'', originalAmount = m_originalAmount t,
             confidence = m_confidence t\<rparr>;
          category' =
            categorizeTransaction cz (description newTransaction) (amount newTransaction)
              (Some (type_t newTransaction));
          newTransaction = newTransaction\<lparr>category := category'\<rparr>
      in save_and_notify (s\<lparr>transactions := transactions s @ [newTransaction]\<rparr>))"

subsection \<open>The financial summary\<close>

definition isCreditCardPayment :: "jstring \<Rightarrow> bool" where
  "isCreditCardPayment description' =
     (let lowerDesc = toLowerCase description' in
      includes_s lowerDesc (js ''payment from chk'') \<or>
      includes_s lowerDesc (js ''conf#'') \<or>
      includes_s lowerDesc (js ''chk 9192'') \<or>
      includes_s lowerDesc (js ''online payment'') \<or>
      includes_s lowerDesc (js ''autopay'') \<or>
      includes_s lowerDesc (js ''payment - thank you'') \<or>
      includes_s lowerDesc (js ''payment thank you'') \<or>
      includes_s lowerDesc (js ''electronic payment'') \<or>
      includes_s lowerDesc (js ''bill payment''))"











section \<open>The statement parser (\<open>SimpleTransactionParser\<close>)\<close>

subsection \<open>Income or expense\<close>

definition strongIncomeKeywords :: "jstring list" where
  "strongIncomeKeywords = map js
     [''payment from'', ''deposit from'', ''transfer from'', ''refund from'',
      ''payment received'', ''direct deposit'', ''salary'', ''payroll'', ''wage'', ''bonus'',
      ''commission'', ''dividend'', ''interest earned'', ''cashback'', ''reward'',
      ''freelance payment'', ''contract payment'', ''invoice payment'', ''reimbursement'']"

definition moderateIncomeKeywords :: "jstring list" where
  "moderateIncomeKeywords = map js
     [''refund'', ''return'', ''credit adjustment'', ''promotional credit'',
      ''statement credit'', ''fee waiver'', ''adjustment credit'', ''deposit'', ''credit'']"

definition strongExpenseKeywords :: "jstring list" where
  "strongExpenseKeywords = map js
     [''payment to'', ''transfer to'', ''payment for'', ''purchase at'', ''purchase from'',
      ''bill payment'', ''automatic payment'', ''online payment'', ''debit purchase'',
      ''pos purchase'', ''atm withdrawal'', ''check payment'']"

definition determineTransactionType :: "rat \<Rightarrow> jstring \<Rightarrow> transaction_type" where
  "determineTransactionType originalAmount' description' =
     (let lowerDesc = toLowerCase description';
          hasStrongIncomeKeyword = list_ex (\<lambda>keyword. includes_s lowerDesc keyword) strongIncomeKeywords
      in if hasStrongIncomeKeyword then Income
         else
           (let hasStrongExpenseKeyword =
                  list_ex (\<lambda>keyword. includes_s lowerDesc keyword) strongExpenseKeywords
            in if hasStrongExpenseKeyword then Expense
               else
                 (let hasModerateIncomeKeyword =
                        list_ex (\<lambda>keyword. includes_s lowerDesc keyword) moderateIncomeKeywords
                  in if originalAmount' > 0 \<and> hasModerateIncomeKeyword then Income
                     else if originalAmount' < 0 then
                       (if includes_s lowerDesc (js ''refund'') \<or> includes_s lowerDesc (js ''cashback'')
                           \<or> includes_s lowerDesc (js ''return'')
                        then Income else Expense)
                     else Expense)))"

subsection \<open>Entry point\<close>

text \<open>
  A \<open>File\<close> as \<open>parseFile\<close> reads it: name, MIME type and size in bytes. The three
  per-format strategies read the content; they are arguments, and each returns its
  transactions or what it throws. The result of \<open>parseFile\<close> comes with the list of the
  strategies it has called.
\<close>

record js_file =
  file_name :: jstring
  file_type :: jstring
  file_size :: nat

datatype thrown = Error jstring | NotAnError

datatype strategy = ParseCSV | ParseText | ParsePDF

type_synonym parse_strategy = "js_file \<Rightarrow> thrown + transaction list"

definition parseFile ::
  "parse_strategy \<Rightarrow> parse_strategy \<Rightarrow> parse_strategy \<Rightarrow> js_file
     \<Rightarrow> (thrown + transaction list) \<times> strategy list" where
  "parseFile parseCSV parseText parsePDF f =
     (let fileName = toLowerCase (file_name f);
          fileType = file_type f;
          (tried, called) =
            (if file_size f > 10 * 1024 * 1024
             then (Inl (Error (js ''File size too large. Maximum 10MB allowed.'')), [])
             else if file_size f = 0
             then (Inl (Error (js ''File is empty. Please upload a file with transaction data.'')), [])
             else
               (let (parsed, called) =
                      (if endsWith fileName (js ''.csv'') \<or> fileType = js ''text/csv''
                       then (parseCSV f, [ParseCSV])
                       else if endsWith fileName (js ''.txt'') \<or> fileType = js ''text/plain''
                       then (parseText f, [ParseText])
                       else if endsWith fileName (js ''.pdf'') \<or> fileType = js ''application/pdf''
                       then (parsePDF f, [ParsePDF])
                       else (Inl (Error (js ''Unsupported file type. Please upload CSV, TXT, or PDF files.'')), []))
                in (case parsed of
                      Inl e \<Rightarrow> (Inl e, called)
                    | Inr transactions' \<Rightarrow>
                        if length transactions' = 0
                        then (Inl (Error (js ''No valid transactions found in the file. Please check the file format and content.'')), called)
                        else (Inr transactions', called))))
      in (case tried of
            Inl (Error message) \<Rightarrow> (Inl (Error message), called)
          | Inl NotAnError \<Rightarrow> (Inl (Error (js ''Failed to parse file'')), called)
          | Inr transactions' \<Rightarrow> (Inr transactions', called)))"

section \<open>Numbers and dates of the JavaScript runtime\<close>

definition isDigit :: "code_unit \<Rightarrow> bool" where
  "isDigit c = (48 \<le> c \<and> c \<le> 57)"

definition isWordChar :: "code_unit \<Rightarrow> bool" where
  "isWordChar c = ((97 \<le> c \<and> c \<le> 122) \<or> (65 \<le> c \<and> c \<le> 90) \<or> isDigit c \<or> c = 95)"

text \<open>The value of a string of decimal digits, read from the left.\<close>

definition digits_value :: "jstring \<Rightarrow> nat" where
  "digits_value ds = foldl (\<lambda>v c. 10 * v + (c - 48)) 0 ds"

text \<open>
  \<open>parseFloat\<close>: leading white space, an optional sign, then the longest prefix that is a
  decimal literal (digits, a fraction, an exponent with at least one digit). \<open>None\<close> is
  \<open>NaN\<close>. Values are exact rationals. The literal \<open>Infinity\<close>, whose value is no finite
  number, is outside the numbers modelled and is read as \<open>None\<close>.
\<close>

definition parseFloat :: "jstring \<Rightarrow> rat option" where
  "parseFloat str =
     (let s0 = dropWhile isWhiteSpace str;
          (negative, s1) =
            (case s0 of
               c # cs \<Rightarrow> if c = 45 then (True, cs) else if c = 43 then (False, cs) else (False, s0)
             | [] \<Rightarrow> (False, s0));
          intDigits = takeWhile isDigit s1;
          s2 = dropWhile isDigit s1;
          (fracDigits, s3) =
            (case s2 of
               c # cs \<Rightarrow> if c = 46 then (takeWhile isDigit cs, dropWhile isDigit cs) else ([], s2)
             | [] \<Rightarrow> ([], s2))
      in if intDigits = [] \<and> fracDigits = [] then None
         else
           (let mantissa =
                  of_nat (digits_value intDigits)
                  + of_nat (digits_value fracDigits) / 10 ^ length fracDigits;
                exponent =
                  (case s3 of
                     e # cs \<Rightarrow>
                       if e = 101 \<or> e = 69 then
                         (case cs of
                            sg # ds \<Rightarrow>
                              if sg = 45 \<and> takeWhile isDigit ds \<noteq> []
                              then - int (digits_value (takeWhile isDigit ds))
                              else if sg = 43 \<and> takeWhile isDigit ds \<noteq> []
                              then int (digits_value (takeWhile isDigit ds))
                              else int (digits_value (takeWhile isDigit cs))
                          | [] \<Rightarrow> 0)
                       else 0
                   | [] \<Rightarrow> 0);
                magnitude =
                  (if exponent \<ge> 0 then mantissa * 10 ^ nat exponent
                   else mantissa / 10 ^ nat (- exponent))
            in Some (if negative then - magnitude else magnitude)))"

text \<open>
  \<open>parseInt\<close> without a radix: leading white space, an optional sign, then the longest
  run of decimal digits, or of hexadecimal digits after \<open>0x\<close>. \<open>None\<close> is \<open>NaN\<close>.
\<close>

definition isHexDigit :: "code_unit \<Rightarrow> bool" where
  "isHexDigit c = (isDigit c \<or> (97 \<le> c \<and> c \<le> 102) \<or> (65 \<le> c \<and> c \<le> 70))"

definition hex_value :: "jstring \<Rightarrow> nat" where
  "hex_value ds =
     foldl (\<lambda>v c. 16 * v + (if isDigit c then c - 48 else if c \<ge> 97 then c - 87 else c - 55)) 0 ds"

definition parseInt :: "jstring \<Rightarrow> int option" where
  "parseInt str =
     (let s0 = dropWhile isWhiteSpace str;
          (negative, s1) =
            (case s0 of
               c # cs \<Rightarrow> if c = 45 then (True, cs) else if c = 43 then (False, cs) else (False, s0)
             | [] \<Rightarrow> (False, s0));
          hex = (startsWith s1 (js ''0x'') \<or> startsWith s1 (js ''0X''));
          ds = (if hex then takeWhile isHexDigit (drop 2 s1) else takeWhile isDigit s1)
      in if ds = [] then None
         else
           (let v = int (if hex then hex_value ds else digits_value ds)
            in Some (if negative then - v else v)))"

text \<open>The decimal digits of a natural number.\<close>

function digits_of :: "nat \<Rightarrow> jstring" where
  "digits_of n = (if n < 10 then [48 + n] else digits_of (n div 10) @ [48 + n mod 10])"
  by pat_completeness auto
termination
  by (relation "measure id") auto

definition padStart :: "nat \<Rightarrow> jstring \<Rightarrow> jstring" where
  "padStart n s = replicate (n - length s) 48 @ s"

text \<open>
  \<open>x.toFixed(2)\<close> on the exact value: the nearest multiple of 0.01, the larger one on a
  tie, printed in full.
\<close>

definition toFixed2 :: "rat \<Rightarrow> jstring" where
  "toFixed2 x =
     (let n = nat \<lfloor>\<bar>x\<bar> * 100 + 1 / 2\<rfloor>
      in (if x < 0 then js ''-'' else []) @ digits_of (n div 100) @ js ''.''
           @ padStart 2 (digits_of (n mod 100)))"

text \<open>
  Calendar arithmetic of \<open>Date\<close>, with UTC as the local time zone. \<open>days_from_civil\<close> is
  the day number of a date of the proleptic Gregorian calendar (month \<open>1..12\<close>), and
  \<open>civil_from_days\<close> its inverse.
\<close>

definition days_from_civil :: "int \<Rightarrow> int \<Rightarrow> int \<Rightarrow> int" where
  "days_from_civil y m d =
     (let y' = (if m \<le> 2 then y - 1 else y);
          era = y' div 400;
          yoe = y' mod 400;
          doy = (153 * (m + (if m > 2 then - 3 else 9)) + 2) div 5 + d - 1;
          doe = yoe * 365 + yoe div 4 - yoe div 100 + doy
      in era * 146097 + doe - 719468)"

definition civil_from_days :: "int \<Rightarrow> int \<times> int \<times> int" where
  "civil_from_days z0 =
     (let z = z0 + 719468;
          era = z div 146097;
          doe = z mod 146097;
          yoe = (doe - doe div 1460 + doe div 36524 - doe div 146096) div 365;
          y = yoe + era * 400;
          doy = doe - (365 * yoe + yoe div 4 - yoe div 100);
          mp = (5 * doy + 2) div 153;
          d = doy - (153 * mp + 2) div 5 + 1;
          m = (if mp < 10 then mp + 3 else mp - 9)
      in (if m \<le> 2 then y + 1 else y, m, d))"

text \<open>
  \<open>new Date(year, monthIndex, day)\<close>: years \<open>0..99\<close> mean \<open>1900..1999\<close>, a month index
  or a day out of range carries over, and a time value beyond 8.64e15 ms in magnitude
  is an invalid date (\<open>None\<close>).
\<close>

definition newDate :: "int \<Rightarrow> int \<Rightarrow> int \<Rightarrow> int option" where
  "newDate year monthIndex day =
     (let y = (if 0 \<le> year \<and> year \<le> 99 then 1900 + year else year);
          ym = y + monthIndex div 12;
          mn = monthIndex mod 12;
          t = (days_from_civil ym (mn + 1) 1 + day - 1) * 86400000
      in if \<bar>t\<bar> \<le> 8640000000000000 then Some t else None)"

text \<open>\<open>date.toISOString()\<close> of a valid date.\<close>

definition toISOString :: "int \<Rightarrow> jstring" where
  "toISOString t =
     (let (y, m, d) = civil_from_days (t div 86400000);
          ms = t mod 86400000;
          year =
            (if 0 \<le> y \<and> y \<le> 9999 then padStart 4 (digits_of (nat y))
             else (if y < 0 then js ''-'' else js ''+'') @ padStart 6 (digits_of (nat \<bar>y\<bar>)))
      in year @ js ''-'' @ padStart 2 (digits_of (nat m)) @ js ''-'' @ padStart 2 (digits_of (nat d))
           @ js ''T'' @ padStart 2 (digits_of (nat (ms div 3600000)))
           @ js '':'' @ padStart 2 (digits_of (nat (ms mod 3600000 div 60000)))
           @ js '':'' @ padStart 2 (digits_of (nat (ms mod 60000 div 1000)))
           @ js ''.'' @ padStart 3 (digits_of (nat (ms mod 1000))) @ js ''Z'')"

text \<open>
  What the parsers take from their environment: the current year, the implementation's
  parser behind \<open>new Date(string)\<close>, today's \<open>toLocaleDateString()\<close>, and the ids that
  \<open>generateId\<close> draws from \<open>Math.random\<close>, numbered in the order they are drawn.
\<close>

record env =
  currentYear :: int
  dateFromString :: "jstring \<Rightarrow> int option"
  todayLocaleDateString :: jstring
  generateId :: "nat \<Rightarrow> jstring"

section \<open>Regular expressions\<close>

text \<open>
  The regular expressions of the parsers, as syntax trees, and a backtracking matcher
  that lists the ways a pattern matches at a position in the order JavaScript tries
  them: the first is the match JavaScript finds. \<open>RStar True\<close> is the greedy star,
  \<open>RStar False\<close> the lazy one; an iteration that consumes nothing is not repeated.
  (JavaScript clears the captures of a group at each new iteration around it; no pattern
  below has a group inside a repetition.)
\<close>

datatype regex =
    RChar "code_unit \<Rightarrow> bool"
  | REmpty
  | RSeq regex regex
  | RAlt regex regex
  | RStar bool regex
  | RGroup nat regex
  | RBol
  | REol
  | RWordB

text \<open>
  A matcher state: the number of code units left, the code unit before the position
  (\<open>None\<close> at the start of the input), the input left, and the captures so far, newest
  first, each with the input at its start and its length.
\<close>

type_synonym mstate = "nat \<times> code_unit option \<times> jstring \<times> (nat \<times> jstring \<times> nat) list"

function rmatch :: "regex \<Rightarrow> mstate \<Rightarrow> mstate list" where
  "rmatch (RChar P) (n, prev, rest, caps) =
     (case rest of [] \<Rightarrow> [] | c # cs \<Rightarrow> if P c then [(n - 1, Some c, cs, caps)] else [])"
| "rmatch REmpty s = [s]"
| "rmatch (RSeq a b) s = concat (map (rmatch b) (rmatch a s))"
| "rmatch (RAlt a b) s = rmatch a s @ rmatch b s"
| "rmatch (RStar greedy r) (n, prev, rest, caps) =
     (let more = concat (map (rmatch (RStar greedy r))
                   (filter (\<lambda>s'. fst s' < n) (rmatch r (n, prev, rest, caps))))
      in if greedy then more @ [(n, prev, rest, caps)] else (n, prev, rest, caps) # more)"
| "rmatch (RGroup i r) (n, prev, rest, caps) =
     map (\<lambda>(n', prev', rest', caps'). (n', prev', rest', (i, rest, n - n') # caps'))
       (rmatch r (n, prev, rest, caps))"
| "rmatch RBol (n, prev, rest, caps) = (if prev = None then [(n, prev, rest, caps)] else [])"
| "rmatch REol (n, prev, rest, caps) = (if rest = [] then [(n, prev, rest, caps)] else [])"
| "rmatch RWordB (n, prev, rest, caps) =
     (if (case prev of None \<Rightarrow> False | Some c \<Rightarrow> isWordChar c)
         \<noteq> (case rest of [] \<Rightarrow> False | c # cs \<Rightarrow> isWordChar c)
      then [(n, prev, rest, caps)] else [])"
  by pat_completeness auto
termination
  by (relation "(\<lambda>(r, s). size r) <*mlex*> measure (\<lambda>(r, s). fst s)")
     (auto simp: wf_mlex mlex_less mlex_leq)

text \<open>
  A match: the text before it, the matched text, the captures, and the matcher state at
  its end.
\<close>

record re_match =
  m_pre :: jstring
  m_text :: jstring
  m_caps :: "(nat \<times> jstring \<times> nat) list"
  m_end :: mstate

text \<open>Capture group \<open>i\<close> of a match; \<open>None\<close> when the group took no part in it.\<close>

definition group :: "re_match \<Rightarrow> nat \<Rightarrow> jstring option" where
  "group m i = (case map_of (m_caps m) i of None \<Rightarrow> None | Some (rest, len) \<Rightarrow> Some (take len rest))"

text \<open>In a replacement template an absent group is the empty string.\<close>

definition grp :: "re_match \<Rightarrow> nat \<Rightarrow> jstring" where
  "grp m i = (case group m i of None \<Rightarrow> [] | Some t \<Rightarrow> t)"

text \<open>The leftmost match from a position on; \<open>pre\<close> is the text already passed, reversed.\<close>

fun re_search :: "regex \<Rightarrow> nat \<Rightarrow> code_unit option \<Rightarrow> jstring \<Rightarrow> jstring \<Rightarrow> re_match option" where
  "re_search r n prev [] pre =
     (case rmatch r (n, prev, [], []) of
        [] \<Rightarrow> None
      | (n', prev', rest', caps') # _ \<Rightarrow>
          Some \<lparr>m_pre = rev pre, m_text = [], m_caps = caps', m_end = (n', prev', rest', caps')\<rparr>)"
| "re_search r n prev (c # cs) pre =
     (case rmatch r (n, prev, c # cs, []) of
        [] \<Rightarrow> re_search r (n - 1) (Some c) cs (c # pre)
      | (n', prev', rest', caps') # _ \<Rightarrow>
          Some \<lparr>m_pre = rev pre, m_text = take (n - n') (c # cs), m_caps = caps',
                m_end = (n', prev', rest', caps')\<rparr>)"

definition re_exec :: "regex \<Rightarrow> jstring \<Rightarrow> re_match option" where
  "re_exec r s = re_search r (length s) None s []"

definition re_test :: "regex \<Rightarrow> jstring \<Rightarrow> bool" where
  "re_test r s = (re_exec r s \<noteq> None)"

text \<open>\<open>s.replace(r, f)\<close> for a pattern without the \<open>g\<close> flag.\<close>

definition re_replace :: "regex \<Rightarrow> (re_match \<Rightarrow> jstring) \<Rightarrow> jstring \<Rightarrow> jstring" where
  "re_replace r f s =
     (case re_exec r s of None \<Rightarrow> s | Some m \<Rightarrow> m_pre m @ f m @ (fst (snd (snd (m_end m)))))"

text \<open>
  \<open>s.replace(r, f)\<close> for a pattern with the \<open>g\<close> flag: after a match the search goes on
  at its end, and one code unit further when the match was empty.
\<close>

function re_replace_from ::
  "regex \<Rightarrow> (re_match \<Rightarrow> jstring) \<Rightarrow> nat \<Rightarrow> code_unit option \<Rightarrow> jstring \<Rightarrow> jstring" where
  "re_replace_from r f n prev s =
     (case re_search r n prev s [] of
        None \<Rightarrow> s
      | Some m \<Rightarrow>
          (case m_end m of (n', prev', rest', caps') \<Rightarrow>
             if n' < n then m_pre m @ f m @ re_replace_from r f n' prev' rest'
             else
               (case rest' of
                  [] \<Rightarrow> m_pre m @ f m
                | c # cs \<Rightarrow>
                    if n' - 1 < n then m_pre m @ f m @ c # re_replace_from r f (n' - 1) (Some c) cs
                    else m_pre m @ f m @ rest')))"
  by pat_completeness auto
termination
  by (relation "measure (\<lambda>(r, f, n, prev, s). n)") auto

definition re_replace_all :: "regex \<Rightarrow> (re_match \<Rightarrow> jstring) \<Rightarrow> jstring \<Rightarrow> jstring" where
  "re_replace_all r f s = re_replace_from r f (length s) None s"

subsection \<open>Building patterns\<close>

definition lit :: "code_unit \<Rightarrow> regex" where
  "lit c = RChar (\<lambda>x. x = c)"

text \<open>
  With the \<open>i\<close> flag an ASCII letter matches both of its cases; no code unit beyond
  ASCII is folded onto an ASCII one.
\<close>

definition lowerAscii :: "code_unit \<Rightarrow> code_unit" where
  "lowerAscii c = (if 65 \<le> c \<and> c \<le> 90 then c + 32 else c)"

definition lit_i :: "code_unit \<Rightarrow> regex" where
  "lit_i c = RChar (\<lambda>x. lowerAscii x = lowerAscii c)"

fun rseq :: "regex list \<Rightarrow> regex" where
  "rseq [] = REmpty"
| "rseq [r] = r"
| "rseq (r # rs) = RSeq r (rseq rs)"

fun ralt :: "regex list \<Rightarrow> regex" where
  "ralt [] = RChar (\<lambda>x. False)"
| "ralt [r] = r"
| "ralt (r # rs) = RAlt r (ralt rs)"

definition str :: "string \<Rightarrow> regex" where
  "str s = rseq (map lit (js s))"

definition str_i :: "string \<Rightarrow> regex" where
  "str_i s = rseq (map lit_i (js s))"

definition one_of :: "string \<Rightarrow> regex" where
  "one_of s = RChar (\<lambda>x. x \<in> set (js s))"

definition none_of :: "string \<Rightarrow> regex" where
  "none_of s = RChar (\<lambda>x. x \<notin> set (js s))"

definition digit :: regex where "digit = RChar isDigit"
definition space :: regex where "space = RChar isWhiteSpace"
definition wordchar :: regex where "wordchar = RChar isWordChar"

text \<open>The dot: any code unit but a line terminator.\<close>

definition dot :: regex where
  "dot = RChar (\<lambda>x. x \<noteq> 10 \<and> x \<noteq> 13 \<and> x \<noteq> 8232 \<and> x \<noteq> 8233)"

definition star :: "regex \<Rightarrow> regex" where "star r = RStar True r"
definition plus :: "regex \<Rightarrow> regex" where "plus r = RSeq r (RStar True r)"
definition lazy_plus :: "regex \<Rightarrow> regex" where "lazy_plus r = RSeq r (RStar False r)"
definition opt :: "regex \<Rightarrow> regex" where "opt r = RAlt r REmpty"

text \<open>\<open>r{n}\<close>, \<open>r{n,}\<close> and \<open>r{n,n+k}\<close>, all greedy.\<close>

fun times :: "nat \<Rightarrow> regex \<Rightarrow> regex" where
  "times 0 r = REmpty"
| "times (Suc 0) r = r"
| "times (Suc n) r = RSeq r (times n r)"

fun upto :: "nat \<Rightarrow> regex \<Rightarrow> regex" where
  "upto 0 r = REmpty"
| "upto (Suc k) r = RAlt (RSeq r (upto k r)) REmpty"

definition at_least :: "nat \<Rightarrow> regex \<Rightarrow> regex" where
  "at_least n r = RSeq (times n r) (RStar True r)"

definition between :: "nat \<Rightarrow> nat \<Rightarrow> regex \<Rightarrow> regex" where
  "between n m r = RSeq (times n r) (upto (m - n) r)"

section \<open>The PDF statement parser (\<open>PDFTransactionParser\<close>)\<close>

subsection \<open>Payments, returns and categories\<close>

definition strictPaymentKeywords :: "jstring list" where
  "strictPaymentKeywords = map js
     [''payments and other credits'', ''purchases and adjustments'',
      ''fees charged this period'', ''interest charged this period'',
      ''total minimum payment'', ''total payments and other credits'',
      ''total purchases and adjustments'', ''days in billing period'',
      ''average daily balance'', ''total credit limit'', ''available credit'',
      ''credit line increase'', ''minimum payment due'', ''current balance'',
      ''new balance'', ''previous balance'', ''payment due date'',
      ''late payment warning'', ''statement closing date'', ''billing cycle'',
      ''account summary'', ''customer service'', ''contact us'', ''for cash advance'',
      ''cash credit line'', ''portion of credit line'', ''year-to-date totals'',
      ''confirmation number'', ''reference number'', ''conf#'', ''ref#'',
      ''payment from chk'', ''payment - thank you'', ''payment thank you'',
      ''autopay payment'', ''online payment received'', ''check payment received'',
      ''electronic payment received'', ''bill payment received'']"

text \<open>\<open>/^\d+\s*$/\<close>\<close>

definition re_only_digits :: regex where
  "re_only_digits = rseq [RBol, plus digit, star space, REol]"

text \<open>\<open>/^(total|subtotal|balance|amount)\s/\<close>\<close>

definition re_statement_artifact :: regex where
  "re_statement_artifact =
     rseq [RBol, RGroup 1 (ralt [str ''total'', str ''subtotal'', str ''balance'', str ''amount'']),
           space]"

text \<open>\<open>/^\s*(date|description|amount|transaction|account)\s/\<close>\<close>

definition re_header_information :: regex where
  "re_header_information =
     rseq [RBol, star space,
           RGroup 1 (ralt [str ''date'', str ''description'', str ''amount'', str ''transaction'',
                           str ''account'']),
           space]"

definition isPaymentTransaction :: "jstring \<Rightarrow> bool" where
  "isPaymentTransaction description' =
     (let lowerDesc = trim (toLowerCase description') in
      if length lowerDesc < 3 \<or> re_test re_only_digits lowerDesc \<or> lowerDesc = js ''transaction''
      then True
      else
        (let exactMatches =
               list_ex (\<lambda>keyword. lowerDesc = keyword \<or> startsWith lowerDesc (keyword @ js '' '')
                                    \<or> endsWith lowerDesc (js '' '' @ keyword))
                 strictPaymentKeywords
         in if exactMatches then True
            else if re_test re_statement_artifact lowerDesc then True
            else if re_test re_header_information lowerDesc then True
            else if length (filter (\<lambda>c. c = 36) lowerDesc) > 1 then True
            else False))"

definition returnKeywords :: "jstring list" where
  "returnKeywords = map js
     [''refund'', ''return'', ''credit memo'', ''credit adjustment'', ''cashback'',
      ''cash back'', ''reward'', ''rebate'', ''adjustment credit'', ''reversal'', ''void'',
      ''chargeback'', ''dispute credit'', ''promotional credit'', ''statement credit'',
      ''merchant credit'', ''store credit'', ''purchase return'']"

text \<open>
  The eight \<open>returnPatterns\<close>, all with the \<open>i\<close> flag: \<open>/return\s+/\<close>, \<open>/refund\s+/\<close>,
  \<open>/credit\s+memo/\<close>, \<open>/void\s+/\<close>, \<open>/reversal\s+/\<close>, \<open>/adjustment\s+cr/\<close>,
  \<open>/\s+cr\s*$/\<close>, \<open>/\s+credit\s*$/\<close>.
\<close>

definition returnPatterns :: "regex list" where
  "returnPatterns =
     [rseq [str_i ''return'', plus space],
      rseq [str_i ''refund'', plus space],
      rseq [str_i ''credit'', plus space, str_i ''memo''],
      rseq [str_i ''void'', plus space],
      rseq [str_i ''reversal'', plus space],
      rseq [str_i ''adjustment'', plus space, str_i ''cr''],
      rseq [plus space, str_i ''cr'', star space, REol],
      rseq [plus space, str_i ''credit'', star space, REol]]"

definition isReturnTransaction :: "jstring \<Rightarrow> rat \<Rightarrow> bool" where
  "isReturnTransaction description' amount' =
     (let lowerDesc = toLowerCase description' in
      if amount' < 0 then True
      else
        (let hasReturnKeyword = list_ex (\<lambda>keyword. includes_s lowerDesc keyword) returnKeywords
         in if hasReturnKeyword then True
            else
              (let isReturnPattern = list_ex (\<lambda>pattern. re_test pattern description') returnPatterns
               in if isReturnPattern then True else False)))"

text \<open>The parser's own \<open>categorizeTransaction\<close>, a chain of keyword tests.\<close>

definition includes_any :: "jstring \<Rightarrow> string list \<Rightarrow> bool" where
  "includes_any desc kws = list_ex (\<lambda>k. includes_s desc (js k)) kws"

definition pdf_categorizeTransaction :: "jstring \<Rightarrow> bool \<Rightarrow> jstring" where
  "pdf_categorizeTransaction description' isIncome =
     (let desc = toLowerCase description' in
      if isIncome then
        (if includes_any desc [''salary'', ''payroll'', ''wage''] then js ''Salary''
         else if includes_any desc [''freelance'', ''contract''] then js ''Freelance''
         else if includes_any desc [''refund'', ''return''] then js ''Refunds''
         else if includes_any desc [''dividend'', ''interest'', ''investment'']
         then js ''Investment Returns''
         else js ''Other Income'')
      else
        (if includes_any desc
              [''restaurant'', ''food'', ''cafe'', ''pizza'', ''mcdonald'', ''starbucks'',
               ''dining'', ''lunch'', ''dinner'', ''burger'', ''taco'']
         then js ''Food & Dining''
         else if includes_any desc
              [''gas'', ''fuel'', ''uber'', ''lyft'', ''taxi'', ''parking'', ''metro'', ''bus'',
               ''train'', ''shell'', ''exxon'', ''bp'']
         then js ''Transportation''
         else if includes_any desc
              [''grocery'', ''supermarket'', ''walmart'', ''target'', ''amazon'', ''shopping'',
               ''store'', ''costco'', ''kroger'']
         then js ''Shopping''
         else if includes_any desc
              [''electric'', ''water'', ''gas bill'', ''internet'', ''phone'', ''utility'',
               ''cable'', ''cell'', ''verizon'', ''att'', ''tmobile'']
         then js ''Bills & Utilities''
         else if includes_any desc
              [''movie'', ''netflix'', ''spotify'', ''entertainment'', ''game'', ''music'',
               ''theater'', ''concert'']
         then js ''Entertainment''
         else if includes_any desc
              [''doctor'', ''hospital'', ''pharmacy'', ''medical'', ''health'', ''dental'',
               ''cvs'', ''walgreens'']
         then js ''Healthcare''
         else if includes_any desc
              [''hotel'', ''flight'', ''airbnb'', ''travel'', ''vacation'', ''airline'',
               ''rental car'', ''booking'']
         then js ''Travel''
         else if includes_any desc
              [''school'', ''university'', ''education'', ''tuition'', ''books'', ''college'']
         then js ''Education''
         else if includes_any desc
              [''fee'', ''charge'', ''penalty'', ''atm'', ''overdraft'', ''maintenance'']
         then js ''Fees & Charges''
         else js ''Other''))"

subsection \<open>Dates\<close>

text \<open>
  The four \<open>formats\<close> of \<open>parseDate\<close>:
  \<open>/(\d{1,2})\/(\d{1,2})\/(\d{2,4})/\<close>, \<open>/(\d{4})-(\d{1,2})-(\d{1,2})/\<close>,
  \<open>/(\d{1,2})\/(\d{1,2})\/(\d{4})/\<close> and
  \<open>/(Jan|Feb|Mar|Apr|May|Jun|Jul|Aug|Sep|Oct|Nov|Dec)\s+(\d{1,2}),?\s+(\d{4})/i\<close>.
\<close>

definition re_mdy :: regex where
  "re_mdy = rseq [RGroup 1 (between 1 2 digit), lit 47, RGroup 2 (between 1 2 digit), lit 47,
                  RGroup 3 (between 2 4 digit)]"

definition re_ymd :: regex where
  "re_ymd = rseq [RGroup 1 (times 4 digit), lit 45, RGroup 2 (between 1 2 digit), lit 45,
                  RGroup 3 (between 1 2 digit)]"

definition re_dmy :: regex where
  "re_dmy = rseq [RGroup 1 (between 1 2 digit), lit 47, RGroup 2 (between 1 2 digit), lit 47,
                  RGroup 3 (times 4 digit)]"

definition monthNames :: "string list" where
  "monthNames = [''jan'', ''feb'', ''mar'', ''apr'', ''may'', ''jun'', ''jul'', ''aug'', ''sep'',
                 ''oct'', ''nov'', ''dec'']"

definition re_month_name :: regex where
  "re_month_name =
     rseq [RGroup 1 (ralt (map str_i monthNames)), plus space, RGroup 2 (between 1 2 digit),
           opt (lit 44), plus space, RGroup 3 (times 4 digit)]"

text \<open>
  \<open>Number\<close> of a capture of \<open>\d\<close>s, the only strings it is applied to (a capture that
  is absent or no digit string gives \<open>NaN\<close>, and a date built from it is invalid).
\<close>

definition Number_of :: "jstring option \<Rightarrow> int option" where
  "Number_of g =
     (case g of
        Some ds \<Rightarrow> if ds \<noteq> [] \<and> list_all isDigit ds then Some (int (digits_value ds)) else None
      | None \<Rightarrow> None)"

definition parseInt_of :: "jstring option \<Rightarrow> int option" where
  "parseInt_of g = (case g of Some ds \<Rightarrow> parseInt ds | None \<Rightarrow> None)"

text \<open>\<open>new Date(year, month - 1, day)\<close>, invalid when an argument is \<open>NaN\<close>.\<close>

definition newDate_of :: "int option \<Rightarrow> int option \<Rightarrow> int option \<Rightarrow> int option" where
  "newDate_of y m d =
     (case (y, m, d) of
        (Some year, Some monthNumber, Some day) \<Rightarrow> newDate year (monthNumber - 1) day
      | _ \<Rightarrow> None)"

text \<open>The century rule for a year below 100.\<close>

definition pivot_year :: "env \<Rightarrow> int \<Rightarrow> int" where
  "pivot_year e year =
     (if year < 100 then
        (let century = (currentYear e div 100) * 100
         in if year > 50 then century - 100 + year else century + year)
      else year)"

text \<open>\<open>monthNames.indexOf(name) + 1\<close>.\<close>

definition month_number :: "jstring \<Rightarrow> int" where
  "month_number name =
     (case findIndex (\<lambda>m. js m = name) monthNames of Some i \<Rightarrow> int i + 1 | None \<Rightarrow> 0)"

text \<open>
  One round of the loop over \<open>formats\<close>: the date a format gives, \<open>None\<close> when it does
  not match or gives an invalid date. The third format's source contains \<open>(\d{4})\<close>, so
  it takes the branch written for the second and reads its captures as year, month, day.
\<close>

definition pdf_date_mdy :: "env \<Rightarrow> jstring \<Rightarrow> int option" where
  "pdf_date_mdy e dateStr =
     (case re_exec re_mdy dateStr of
        None \<Rightarrow> None
      | Some m \<Rightarrow>
          newDate_of (map_option (pivot_year e) (Number_of (group m 3)))
            (Number_of (group m 1)) (Number_of (group m 2)))"

definition pdf_date_ymd :: "regex \<Rightarrow> jstring \<Rightarrow> int option" where
  "pdf_date_ymd format dateStr =
     (case re_exec format dateStr of
        None \<Rightarrow> None
      | Some m \<Rightarrow>
          newDate_of (Number_of (group m 1)) (Number_of (group m 2)) (Number_of (group m 3)))"

definition pdf_date_month_name :: "jstring \<Rightarrow> int option" where
  "pdf_date_month_name dateStr =
     (case re_exec re_month_name dateStr of
        None \<Rightarrow> None
      | Some m \<Rightarrow>
          newDate_of (parseInt_of (group m 3))
            (Some (month_number (toLowerCase (grp m 1)))) (parseInt_of (group m 2)))"

definition pdf_parseDate :: "env \<Rightarrow> jstring \<Rightarrow> int option" where
  "pdf_parseDate e dateStr =
     (case pdf_date_mdy e dateStr of
        Some d \<Rightarrow> Some d
      | None \<Rightarrow>
          (case pdf_date_ymd re_ymd dateStr of
             Some d \<Rightarrow> Some d
           | None \<Rightarrow>
               (case pdf_date_ymd re_dmy dateStr of
                  Some d \<Rightarrow> Some d
                | None \<Rightarrow>
                    (case pdf_date_month_name dateStr of
                       Some d \<Rightarrow> Some d
                     | None \<Rightarrow> dateFromString e dateStr))))"

subsection \<open>Creating a transaction\<close>

text \<open>\<open>/\d+,\d{2}$/\<close>\<close>

definition re_european_decimal :: regex where
  "re_european_decimal = rseq [plus digit, lit 44, times 2 digit, REol]"

text \<open>\<open>s.replace(',', '.')\<close>: the first comma only.\<close>

fun replace_first_comma :: "jstring \<Rightarrow> jstring" where
  "replace_first_comma [] = []"
| "replace_first_comma (c # cs) = (if c = 44 then 46 # cs else c # replace_first_comma cs)"

text \<open>
  The table \<open>ocrCorrections\<close>. (A key inherited from \<open>Object.prototype\<close>, such as
  \<open>constructor\<close>, makes the source throw inside its \<open>try\<close> and return \<open>null\<close>; such a
  string holds no number, and \<open>null\<close> is what the amount check below returns for it.)
\<close>

definition ocrCorrections :: "(jstring \<times> jstring) list" where
  "ocrCorrections = map (\<lambda>(k, v). (js k, js v))
     [(''ail'', ''7.41''), (''bil'', ''8.11''), (''cil'', ''5.11''), (''dll'', ''9.11''),
      (''ell'', ''6.11''), (''lil'', ''1.11''), (''mil'', ''11.11''), (''nil'', ''0.11''),
      (''oil'', ''0.11''), (''pil'', ''7.11''), (''ril'', ''9.11''), (''sil'', ''5.11''),
      (''til'', ''1.11''), (''vil'', ''7.11''), (''wil'', ''11.11''), (''xil'', ''8.11''),
      (''yil'', ''9.11''), (''zil'', ''2.11'')]"

text \<open>\<open>/^\d{n}$/\<close> and \<open>/^\d{5,}$/\<close>\<close>

definition re_digits_exactly :: "nat \<Rightarrow> regex" where
  "re_digits_exactly n = rseq [RBol, times n digit, REol]"

definition re_digits_5_or_more :: regex where
  "re_digits_5_or_more = rseq [RBol, at_least 5 digit, REol]"

text \<open>\<open>dollars + '.' + cents\<close> with \<open>cents = s.slice(-2)\<close> and \<open>dollars = s.slice(0, -2)\<close>.\<close>

definition split_cents :: "jstring \<Rightarrow> jstring" where
  "split_cents s = take (length s - 2) s @ js ''.'' @ drop (length s - 2) s"

definition parseInt_gt :: "jstring \<Rightarrow> int \<Rightarrow> bool" where
  "parseInt_gt s k = (case parseInt s of Some v \<Rightarrow> v > k | None \<Rightarrow> False)"

definition parseInt_lt :: "jstring \<Rightarrow> int \<Rightarrow> bool" where
  "parseInt_lt s k = (case parseInt s of Some v \<Rightarrow> v < k | None \<Rightarrow> False)"

text \<open>
  The first half of \<open>createTransaction\<close>: from the amount string to \<open>cleanAmountStr\<close> as it
  stands before the sign is looked at.
\<close>

definition cleanAmountStr_of :: "jstring \<Rightarrow> jstring" where
  "cleanAmountStr_of amountStr0 =
     (let amountStr1 = re_replace (rseq [RBol, lit 61]) (\<lambda>m. []) amountStr0;
          amountStr =
            (if includes_s amountStr1 (js '','') \<and> \<not> includes_s amountStr1 (js ''.'')
             then
               (if re_test re_european_decimal
                     (filter (\<lambda>c. \<not> (c = 36 \<or> isWhiteSpace c \<or> c = 45)) amountStr1)
                then replace_first_comma amountStr1 else amountStr1)
             else amountStr1);
          cleanAmountStr0 = filter (\<lambda>c. \<not> (c = 36 \<or> c = 44 \<or> isWhiteSpace c)) amountStr;
          cleanAmountStr =
            (case map_of ocrCorrections cleanAmountStr0 of
               Some corrected \<Rightarrow> corrected
             | None \<Rightarrow> cleanAmountStr0)
      in if \<not> includes_s cleanAmountStr (js ''.'') then
           (if re_test (re_digits_exactly 4) cleanAmountStr \<and> parseInt_gt cleanAmountStr 999
            then split_cents cleanAmountStr
            else if re_test (re_digits_exactly 3) cleanAmountStr \<and> parseInt_gt cleanAmountStr 99
            then split_cents cleanAmountStr
            else if re_test (re_digits_exactly 2) cleanAmountStr \<and> parseInt_lt cleanAmountStr 100
            then js ''0.'' @ cleanAmountStr
            else if re_test (re_digits_exactly 1) cleanAmountStr
            then cleanAmountStr @ js ''.00''
            else if re_test re_digits_5_or_more cleanAmountStr
            then split_cents cleanAmountStr
            else cleanAmountStr)
         else cleanAmountStr)"

text \<open>A leading hyphen, em dash, en dash or minus sign.\<close>

definition startsWithDash :: "jstring \<Rightarrow> bool" where
  "startsWithDash s =
     (startsWith s [45] \<or> startsWith s [8212] \<or> startsWith s [8211] \<or> startsWith s [8722])"

text \<open>
  \<open>originalAmount\<close> as \<open>createTransaction\<close> computes it; \<open>None\<close> when the source returns
  \<open>null\<close> for the amount (\<open>NaN\<close> or zero).
\<close>

definition originalAmount_of :: "jstring \<Rightarrow> rat option" where
  "originalAmount_of amountStr =
     (let cleanAmountStr0 = cleanAmountStr_of amountStr;
          isNegative = startsWithDash cleanAmountStr0;
          cleanAmountStr = (if isNegative then drop 1 cleanAmountStr0 else cleanAmountStr0)
      in case parseFloat cleanAmountStr of
           None \<Rightarrow> None
         | Some originalAmount' \<Rightarrow>
             if originalAmount' = 0 then None
             else Some (if isNegative then - originalAmount' else originalAmount'))"

text \<open>
  \<open>createTransaction\<close>. The argument \<open>k\<close> counts the ids drawn so far; an id is drawn
  only when the transaction is created.
\<close>

definition pdf_createTransaction ::
  "env \<Rightarrow> nat \<Rightarrow> jstring \<Rightarrow> jstring \<Rightarrow> jstring \<Rightarrow> bool \<Rightarrow> pdf_transaction option" where
  "pdf_createTransaction e k dateStr0 description0 amountStr allowPayments =
     (let dateStr = trim dateStr0;
          description' = trim description0
      in case originalAmount_of amountStr of
           None \<Rightarrow> None
         | Some originalAmount' \<Rightarrow>
             if \<not> allowPayments \<and> isPaymentTransaction description' then None
             else
               (case pdf_parseDate e dateStr of
                  None \<Rightarrow> None
                | Some date' \<Rightarrow>
                    if description' = [] \<or> length description' < 2 then None
                    else
                      (let isReturn = isReturnTransaction description' originalAmount';
                           transactionType = (if isReturn then Income else Expense);
                           category' = pdf_categorizeTransaction description' isReturn
                       in Some \<lparr>id_t = generateId e k, date = date', description = description',
                                 amount = \<bar>originalAmount'\<bar>, category = category',
                                 type_t = transactionType, source = js ''upload''\<rparr>)))"

subsection \<open>Removing duplicates\<close>

text \<open>
  The two keys of \<open>removeDuplicates\<close>; \<open>seen\<close> is a \<open>Map\<close> from keys to transactions.
\<close>

definition cleanedDescription :: "pdf_transaction \<Rightarrow> jstring" where
  "cleanedDescription t = trim (collapse_ws (toLowerCase (description t)))"

definition exactKey :: "pdf_transaction \<Rightarrow> jstring" where
  "exactKey t = toISOString (date t) @ js ''-'' @ toFixed2 (amount t) @ js ''-'' @ cleanedDescription t"

definition fuzzyKey :: "pdf_transaction \<Rightarrow> jstring" where
  "fuzzyKey t = toISOString (date t) @ js ''-'' @ cleanedDescription t"

fun removeDuplicates_loop ::
  "pdf_transaction list \<Rightarrow> (jstring \<rightharpoonup> pdf_transaction) \<Rightarrow> pdf_transaction list
     \<Rightarrow> pdf_transaction list" where
  "removeDuplicates_loop [] seen unique = unique"
| "removeDuplicates_loop (t # ts) seen unique =
     (if seen (exactKey t) \<noteq> None then removeDuplicates_loop ts seen unique
      else
        (case seen (fuzzyKey t) of
           Some fuzzyMatch \<Rightarrow>
             if amount t = amount fuzzyMatch \<and> description t \<noteq> description fuzzyMatch
             then removeDuplicates_loop ts seen unique
             else removeDuplicates_loop ts (seen(exactKey t \<mapsto> t)) (unique @ [t])
         | None \<Rightarrow> removeDuplicates_loop ts (seen(exactKey t \<mapsto> t)) (unique @ [t])))"

definition removeDuplicates :: "pdf_transaction list \<Rightarrow> pdf_transaction list" where
  "removeDuplicates ts = removeDuplicates_loop ts Map.empty []"

section \<open>Creating a transaction in \<open>SimpleTransactionParser\<close>\<close>

text \<open>
  \<open>parseDate\<close> of the simple parser: the first three formats of the PDF parser, the
  slash formats read with \<open>parseInt\<close>; the third format again takes the branch of the
  second.
\<close>

definition simple_date_mdy :: "env \<Rightarrow> jstring \<Rightarrow> int option" where
  "simple_date_mdy e dateStr =
     (case re_exec re_mdy dateStr of
        None \<Rightarrow> None
      | Some m \<Rightarrow>
          newDate_of (map_option (pivot_year e) (parseInt_of (group m 3)))
            (parseInt_of (group m 1)) (parseInt_of (group m 2)))"

definition simple_parseDate :: "env \<Rightarrow> jstring \<Rightarrow> int option" where
  "simple_parseDate e dateStr =
     (case simple_date_mdy e dateStr of
        Some d \<Rightarrow> Some d
      | None \<Rightarrow>
          (case pdf_date_ymd re_ymd dateStr of
             Some d \<Rightarrow> Some d
           | None \<Rightarrow>
               (case pdf_date_ymd re_dmy dateStr of
                  Some d \<Rightarrow> Some d
                | None \<Rightarrow> dateFromString e dateStr)))"

text \<open>
  The prefixes \<open>cleanDescription\<close> removes, in its order: \<open>/^POS\s+/i\<close>, \<open>/^ATM\s+/i\<close>,
  \<open>/^ACH\s+/i\<close>, \<open>/^CHECK\s+\d+\s+/i\<close>, \<open>/^DEBIT\s+/i\<close>, \<open>/^CREDIT\s+/i\<close>,
  \<open>/^ONLINE\s+/i\<close>, \<open>/^RECURRING\s+/i\<close>, \<open>/^\d{2}\/\d{2}\s+/\<close>, \<open>/^\*+\s*/\<close>, \<open>/^-+\s*/\<close>.
\<close>

definition prefixesToRemove :: "regex list" where
  "prefixesToRemove =
     [rseq [RBol, str_i ''POS'', plus space],
      rseq [RBol, str_i ''ATM'', plus space],
      rseq [RBol, str_i ''ACH'', plus space],
      rseq [RBol, str_i ''CHECK'', plus space, plus digit, plus space],
      rseq [RBol, str_i ''DEBIT'', plus space],
      rseq [RBol, str_i ''CREDIT'', plus space],
      rseq [RBol, str_i ''ONLINE'', plus space],
      rseq [RBol, str_i ''RECURRING'', plus space],
      rseq [RBol, times 2 digit, lit 47, times 2 digit, plus space],
      rseq [RBol, plus (lit 42), star space],
      rseq [RBol, plus (lit 45), star space]]"

definition upperAscii :: "code_unit \<Rightarrow> code_unit" where
  "upperAscii c = (if 97 \<le> c \<and> c \<le> 122 then c - 32 else c)"

definition cleanDescription :: "jstring \<Rightarrow> jstring" where
  "cleanDescription description0 =
     (let description1 = trim (collapse_ws description0);
          description2 = foldl (\<lambda>d prefix. re_replace prefix (\<lambda>m. []) d) description1 prefixesToRemove;
          description3 =
            re_replace_all (rseq [RWordB, wordchar]) (\<lambda>m. map upperAscii (m_text m))
              (toLowerCase description2)
      in trim description3)"

definition calculateConfidence :: "jstring \<Rightarrow> jstring \<Rightarrow> rat" where
  "calculateConfidence description' category' =
     (let confidence0 = 5 / 10;
          confidence1 = (if length description' > 10 then confidence0 + 1 / 10 else confidence0);
          confidence2 = (if length description' > 20 then confidence1 + 1 / 10 else confidence1);
          confidence3 =
            (if category' \<noteq> js ''Other'' \<and> category' \<noteq> js ''Other Income''
             then confidence2 + 2 / 10 else confidence2);
          confidence4 =
            (if list_ex (\<lambda>term. includes_s (toLowerCase description') (js term))
                  [''transaction'', ''payment'', ''purchase'', ''debit'', ''credit'']
             then confidence3 - 1 / 10 else confidence3)
      in max (1 / 10) (min 1 confidence4))"

definition nonSpendingKeywords :: "jstring list" where
  "nonSpendingKeywords = map js
     [''payment received'', ''payment from'', ''direct deposit'', ''salary'', ''payroll'',
      ''refund'', ''cashback'', ''reward'', ''credit adjustment'', ''interest earned'',
      ''dividend'', ''transfer from'', ''balance transfer'', ''internal transfer'',
      ''statement credit'', ''adjustment credit'', ''fee waiver'', ''promotional credit'',
      ''total purchases'', ''total payments'', ''previous balance'', ''new balance'',
      ''minimum payment'', ''account summary'']"

definition isNonSpendingTransaction :: "jstring \<Rightarrow> bool" where
  "isNonSpendingTransaction description' =
     (let lowerDesc = trim (toLowerCase description')
      in list_ex (\<lambda>keyword. includes_s lowerDesc keyword) nonSpendingKeywords)"

definition createTransaction ::
  "env \<Rightarrow> categorizer \<Rightarrow> nat \<Rightarrow> jstring \<Rightarrow> jstring \<Rightarrow> jstring \<Rightarrow> transaction option" where
  "createTransaction e cz k dateStr0 description0 amountStr0 =
     (let dateStr = trim dateStr0;
          description1 = trim description0;
          amountStr = trim (filter (\<lambda>c. \<not> (c = 36 \<or> c = 44 \<or> isWhiteSpace c)) amountStr0)
      in case simple_parseDate e dateStr of
           None \<Rightarrow> None
         | Some date' \<Rightarrow>
             (case parseFloat amountStr of
                None \<Rightarrow> None
              | Some originalAmount' \<Rightarrow>
                  if originalAmount' = 0 then None
                  else if description1 = [] \<or> length description1 < 3 then None
                  else
                    (let description' = cleanDescription description1
                     in if isNonSpendingTransaction description' then None
                        else
                          (let transactionType = determineTransactionType originalAmount' description';
                               category' =
                                 categorizeTransaction cz description' \<bar>originalAmount'\<bar>
                                   (Some transactionType)
                           in Some \<lparr>id_t = generateId e k, date = date',
                                     description = description', amount = \<bar>originalAmount'\<bar>,
                                     category = category', type_t = transactionType,
                                     source = js ''upload'',
                                     originalAmount = Some originalAmount',
                                     confidence =
                                       Some (calculateConfidence description' category')\<rparr>))))"

section \<open>The Bank of America path of the PDF parser\<close>

subsection \<open>Cleaning a line\<close>

definition always :: "string \<Rightarrow> re_match \<Rightarrow> jstring" where
  "always s m = js s"

text \<open>\<open>'$1' + suffix\<close> as a replacement.\<close>

definition group1_then :: "string \<Rightarrow> re_match \<Rightarrow> jstring" where
  "group1_then suffix m = grp m 1 @ js suffix"

text \<open>\<open>/([0-9]+)NN$/g\<close> with the replacement \<open>'$1.NN'\<close>.\<close>

definition cents_at_end :: "string \<Rightarrow> regex \<times> (re_match \<Rightarrow> jstring)" where
  "cents_at_end nn = (rseq [RGroup 1 (plus digit), str nn, REol], group1_then (''.'' @ nn))"

text \<open>
  The replacements of \<open>cleanOCRLine\<close>, all global, in the order they are applied; the
  line is trimmed after the last.
\<close>

definition cleanOCRLine_steps :: "(regex \<times> (re_match \<Rightarrow> jstring)) list" where
  "cleanOCRLine_steps =
     [(rseq [one_of ''o0'', str ''7n'', one_of ''o0''], always ''07/10''),
      (rseq [str ''o7n'', one_of ''o0''], always ''07/10''),
      (str ''o7ns'', always ''07/18''),
      (str ''O77'', always ''07/17''),
      (rseq [str ''om'', plus space, str ''7/17''], always ''07/17''),
      (rseq [one_of ''o0'', str ''7/'', one_of ''o0'', str ''7''], always ''07/07''),
      (str ''o7no'', always ''07/10''),
      (str ''07106'', always ''07/06''),
      (rseq [str ''om'', plus space, str ''7/''], always ''07/''),
      (str ''o7/22'', always ''07/22''),
      (rseq [str ''o7ns'', plus space, str ''O77''], always ''07/18 07/17''),
      (rseq [str ''O77'', plus space, str ''07/18''], always ''07/17 07/18''),
      (rseq [str ''on'', plus space, str ''07/''], always ''07/''),
      (rseq [str ''omg'', plus space, str ''07/''], always ''07/''),
      (str ''IBI*FABLETICS.COM'', always ''IBI*FABLETICS.COM''),
      (str ''WWW.PACSUN.COM'', always ''WWW.PACSUN.COM''),
      (str ''AMAZON MKTPL*'', always ''AMAZON MKTPLACE''),
      (str ''DCCCD College Online'', always ''DCCCD COLLEGE ONLINE''),
      (rseq [str ''McDonald'', lit 39, str ''s''], always ''MCDONALDS''),
      (rseq [str ''='', RGroup 1 digit], group1_then ''''),
      (rseq [RGroup 1 digit, str '','', RGroup 2 (rseq [digit, digit, star space, REol])],
       \<lambda>m. grp m 1 @ js ''.'' @ grp m 2),
      (rseq [str ''-'', RGroup 1 (plus digit), REol], \<lambda>m. js '' -'' @ grp m 1),
      (rseq [RGroup 1 (between 1 3 digit), RGroup 2 (rseq [times 2 digit, star space, REol])],
       \<lambda>m. if length (m_text m) \<le> 4 \<and> \<not> includes_s (m_text m) (js ''.'')
            then grp m 1 @ js ''.'' @ grp m 2 else m_text m),
      (rseq [str ''ail'', REol], always ''7.41''),
      (rseq [str ''bil'', REol], always ''8.11''),
      (rseq [str ''cil'', REol], always ''5.11''),
      cents_at_end ''39'', cents_at_end ''11'', cents_at_end ''21'', cents_at_end ''63'',
      cents_at_end ''83'', cents_at_end ''47'', cents_at_end ''15'', cents_at_end ''29'',
      cents_at_end ''56'', cents_at_end ''59'',
      (RChar (\<lambda>c. c = 8212 \<or> c = 8211 \<or> c = 8722), always ''-''),
      (plus space, always '' '')]"

definition cleanOCRLine :: "jstring \<Rightarrow> jstring" where
  "cleanOCRLine line = trim (foldl (\<lambda>s (r, f). re_replace_all r f s) line cleanOCRLine_steps)"

subsection \<open>Lines that are no transactions\<close>

text \<open>\<open>/^[a-z0-9]{3,}-\d{2,}-\d{2,}/\<close> and \<open>/^\d{7,}$/\<close>\<close>

definition re_document_id :: regex where
  "re_document_id =
     rseq [RBol, at_least 3 (RChar (\<lambda>c. (97 \<le> c \<and> c \<le> 122) \<or> isDigit c)), str ''-'',
           at_least 2 digit, str ''-'', at_least 2 digit]"

definition re_page_number :: regex where
  "re_page_number = rseq [RBol, at_least 7 digit, REol]"

definition isBankOfAmericaNonTransactionLine :: "jstring \<Rightarrow> bool" where
  "isBankOfAmericaNonTransactionLine line =
     (let lowerLine = trim (toLowerCase line) in
      if trim line = [] \<or> length (trim line) < 5 then True
      else if includes_any lowerLine
                [''payments and other credits'', ''purchases and adjustments'',
                 ''interest charged'', ''fees charged'']
      then True
      else if startsWith lowerLine (js ''total '')
              \<or> includes_any lowerLine
                   [''for this period'', ''year to date'', ''average daily'', ''billing cycle'']
      then True
      else if (includes_s lowerLine (js ''transaction'') \<and> includes_s lowerLine (js ''date''))
              \<or> (includes_s lowerLine (js ''posting'') \<and> includes_s lowerLine (js ''date''))
              \<or> (includes_s lowerLine (js ''reference'') \<and> includes_s lowerLine (js ''number''))
              \<or> (includes_s lowerLine (js ''account'') \<and> includes_s lowerLine (js ''number''))
      then True
      else if includes_any lowerLine
                [''p.o. box'', ''wilmington'', ''dallas tx'', ''prosper tx'', ''dahlia garden'',
                 ''customer service'', ''www.'', ''1.800.'', ''mail payment'', ''billing inqui'']
      then True
      else if includes_any lowerLine
                [''visa signature'', ''account#'', ''june 23 - july 22'', ''may 23- june 22'',
                 ''new balance total'', ''payment due date'', ''late payment warning'',
                 ''minimum payment'']
      then True
      else if includes_any lowerLine
                [''copyright'', ''bank of america corporation'', ''member fdic'', ''equal housing'']
      then True
      else if includes_any lowerLine
                [''interest charge calculation'', ''annual percentage rate'', ''promotional'',
                 ''balance transfers'', ''cash advances'', ''variable rate'', ''%v '',
                 ''apr type definitions'', ''type of annual'']
      then True
      else if includes_any lowerLine
                [''reward summary'', ''cash back earned'', ''cash back redeemed'',
                 ''cash back available'', ''make the most of your'', ''rewards program today'']
      then True
      else if includes_any lowerLine
                [''important messages'', ''congratulations'', ''credit limit has been increased'',
                 ''partner rewards program'', ''shell gas discount'', ''fuel rewards'',
                 ''security meter'', ''mobile banking'', ''bofa.com'', ''qrc feature'']
      then True
      else if includes_any lowerLine
                [''cash credit line'', ''for cash'', ''portion of credit available'',
                 ''total credit line'', ''total credit available'']
      then True
      else if includes_s lowerLine (js ''page '') \<or> re_test re_document_id lowerLine
              \<or> re_test re_page_number lowerLine
      then True
      else False)"

subsection \<open>One line of a section\<close>

datatype statement_section = Credits | Expenses

text \<open>
  What both line parsers do with a created transaction: in the credits section it
  becomes an income of category Refunds, in the expenses section an expense.
\<close>

definition set_section_type :: "statement_section \<Rightarrow> pdf_transaction \<Rightarrow> pdf_transaction" where
  "set_section_type sec t =
     (if sec = Credits then t\<lparr>type_t := Income, category := js ''Refunds''\<rparr>
      else t\<lparr>type_t := Expense\<rparr>)"

text \<open>
  The amount of the alternative patterns, \<open>[-M$]?\d+\.\d{2}\<close>, where \<open>M\<close> stands for the
  minus sign U+2212.
\<close>

definition re_alt_amount :: regex where
  "re_alt_amount =
     rseq [opt (RChar (\<lambda>c. c = 45 \<or> c = 8722 \<or> c = 36)), plus digit, str ''.'', times 2 digit]"

definition re_mmdd :: regex where
  "re_mmdd = rseq [times 2 digit, str ''/'', times 2 digit]"

text \<open>
  The three patterns of \<open>parseAlternativeBOAFormat\<close>:
  \<open>/^(\d{2}\/\d{2})\s+(\d{2}\/\d{2})\s+(.+?)\s+([-M$]?\d+\.\d{2})\s*$/\<close>,
  \<open>/^(\d{2}\/\d{2})\s+(.+?)\s+([-M$]?\d+\.\d{2})\s*$/\<close> and
  \<open>/^(.+?)\s+([-M$]?\d+\.\d{2})\s*$/\<close>.
\<close>

definition re_alt_two_dates :: regex where
  "re_alt_two_dates =
     rseq [RBol, RGroup 1 re_mmdd, plus space, RGroup 2 re_mmdd, plus space,
           RGroup 3 (lazy_plus dot), plus space, RGroup 4 re_alt_amount, star space, REol]"

definition re_alt_one_date :: regex where
  "re_alt_one_date =
     rseq [RBol, RGroup 1 re_mmdd, plus space, RGroup 2 (lazy_plus dot), plus space,
           RGroup 3 re_alt_amount, star space, REol]"

definition re_alt_no_date :: regex where
  "re_alt_no_date =
     rseq [RBol, RGroup 1 (lazy_plus dot), plus space, RGroup 2 re_alt_amount, star space, REol]"

text \<open>
  The date string, the description and the amount string that pattern \<open>i\<close> finds in a
  line, \<open>None\<close> when it does not match.
\<close>

definition alternative_match :: "env \<Rightarrow> nat \<Rightarrow> jstring \<Rightarrow> (jstring \<times> jstring \<times> jstring) option" where
  "alternative_match e i line =
     (if i = 0 then
        map_option (\<lambda>m. (grp m 1 @ js ''/2025'', grp m 3, grp m 4)) (re_exec re_alt_two_dates line)
      else if i = 1 then
        map_option (\<lambda>m. (grp m 1 @ js ''/2025'', grp m 2, grp m 3)) (re_exec re_alt_one_date line)
      else
        map_option (\<lambda>m. (todayLocaleDateString e, grp m 1, grp m 2)) (re_exec re_alt_no_date line))"

text \<open>
  The line parsers return the transaction, if any, and the count of ids drawn after
  them.
\<close>

fun parseAlternative_loop ::
  "env \<Rightarrow> nat \<Rightarrow> jstring \<Rightarrow> statement_section \<Rightarrow> nat list \<Rightarrow> pdf_transaction option \<times> nat" where
  "parseAlternative_loop e k line sec [] = (None, k)"
| "parseAlternative_loop e k line sec (i # is) =
     (case alternative_match e i line of
        None \<Rightarrow> parseAlternative_loop e k line sec is
      | Some (dateStr, description', amountStr) \<Rightarrow>
          (case pdf_createTransaction e k dateStr description' amountStr True of
             Some t \<Rightarrow> (Some (set_section_type sec t), k + 1)
           | None \<Rightarrow> parseAlternative_loop e k line sec is))"

definition parseAlternativeBOAFormat ::
  "env \<Rightarrow> nat \<Rightarrow> jstring \<Rightarrow> statement_section \<Rightarrow> pdf_transaction option \<times> nat" where
  "parseAlternativeBOAFormat e k line sec = parseAlternative_loop e k line sec [0, 1, 2]"

text \<open>\<open>/^\d{2}\/[0-9]{2}$/\<close> and \<open>/^\d{5}$/\<close>\<close>

definition datePattern :: regex where
  "datePattern = rseq [RBol, times 2 digit, str ''/'', times 2 digit, REol]"

definition corruptedDatePattern :: regex where
  "corruptedDatePattern = rseq [RBol, times 5 digit, REol]"

text \<open>
  The sign class \<open>S\<close> of the amount tests: hyphen, minus sign, em dash, en dash and
  equals sign.
\<close>

definition isAmountSign :: "code_unit \<Rightarrow> bool" where
  "isAmountSign c = (c = 45 \<or> c = 8722 \<or> c = 8212 \<or> c = 8211 \<or> c = 61)"

text \<open>
  \<open>/^S?\d+[.,]\d{2}$/\<close>, \<open>/^S?\d{3,4}$/\<close> and \<open>/^S?\d{1,2}$/\<close>
\<close>

definition re_decimal_amount :: regex where
  "re_decimal_amount =
     rseq [RBol, opt (RChar isAmountSign), plus digit, one_of ''.,'', times 2 digit, REol]"

definition re_amount_3_4 :: regex where
  "re_amount_3_4 = rseq [RBol, opt (RChar isAmountSign), between 3 4 digit, REol]"

definition re_amount_1_2 :: regex where
  "re_amount_1_2 = rseq [RBol, opt (RChar isAmountSign), between 1 2 digit, REol]"

text \<open>\<open>part.replace(/^S/, '')\<close> and the sign it removes.\<close>

definition numPart_of :: "jstring \<Rightarrow> jstring" where
  "numPart_of part = (case part of c # cs \<Rightarrow> if isAmountSign c then cs else part | [] \<Rightarrow> part)"

definition sign_of :: "jstring \<Rightarrow> jstring" where
  "sign_of part = (case part of c # cs \<Rightarrow> if isAmountSign c then [c] else [] | [] \<Rightarrow> [])"

text \<open>The amount a part stands for in the search from the right, if it looks like one.\<close>

definition amount_of_part :: "jstring \<Rightarrow> jstring option" where
  "amount_of_part part =
     (if re_test re_decimal_amount part then Some part
      else if part = js ''ail'' then Some (js ''7.41'')
      else if re_test re_amount_3_4 part \<and> parseInt_gt (numPart_of part) 99 then
        (let numPart = numPart_of part; sign = sign_of part
         in if length numPart = 3 then Some (sign @ take 1 numPart @ js ''.'' @ drop 1 numPart)
            else if length numPart = 4 then Some (sign @ take 2 numPart @ js ''.'' @ drop 2 numPart)
            else Some part)
      else if re_test re_amount_1_2 part \<and> parseInt_lt (numPart_of part) 100
      then Some (part @ js ''.00'')
      else None)"

text \<open>
  The loop \<open>for (i = parts.length - 1; i >= startIndex; i--)\<close>, with \<open>n\<close> the number of
  indices still to try: the index and the amount found first.
\<close>

fun find_amount :: "jstring list \<Rightarrow> nat \<Rightarrow> nat \<Rightarrow> (nat \<times> jstring) option" where
  "find_amount parts startIndex 0 = None"
| "find_amount parts startIndex (Suc n) =
     (let i = startIndex + n in
      case amount_of_part (parts ! i) of
        Some amount' \<Rightarrow> Some (i, amount')
      | None \<Rightarrow> find_amount parts startIndex n)"

text \<open>\<open>parts.slice(a, b).join(' ')\<close>\<close>

fun join_space :: "jstring list \<Rightarrow> jstring" where
  "join_space [] = []"
| "join_space [p] = p"
| "join_space (p # ps) = p @ 32 # join_space ps"

definition slice_join :: "jstring list \<Rightarrow> nat \<Rightarrow> nat \<Rightarrow> jstring" where
  "slice_join parts a b = join_space (take (b - a) (drop a parts))"

definition isCardPaymentText :: "jstring \<Rightarrow> bool" where
  "isCardPaymentText lower =
     (includes_s lower (js ''payment from chk'') \<or> includes_s lower (js ''online payment from'')
      \<or> includes_s lower (js ''conf#''))"

definition parseBankOfAmericaTabularLine ::
  "env \<Rightarrow> nat \<Rightarrow> jstring \<Rightarrow> statement_section \<Rightarrow> pdf_transaction option \<times> nat" where
  "parseBankOfAmericaTabularLine e k line sec =
     (let trimmedLine = trim line in
      if isCardPaymentText (toLowerCase trimmedLine)
         \<or> (sec = Credits \<and> (includes_s trimmedLine (js ''367.09'')
                              \<or> includes_s trimmedLine (js ''940.83'')))
      then (None, k)
      else
        (let cleanedLine = cleanOCRLine trimmedLine;
             parts = split_ws cleanedLine
         in if length parts < 4 then parseAlternativeBOAFormat e k cleanedLine sec
            else
              (let transDate =
                     (if re_test datePattern (parts ! 0) \<and> re_test datePattern (parts ! 1)
                      then Some (parts ! 0)
                      else if re_test corruptedDatePattern (parts ! 0) \<and> re_test datePattern (parts ! 1)
                      then Some (take 2 (parts ! 0) @ js ''/'' @ take 2 (drop 2 (parts ! 0)))
                      else if (startsWith (toLowerCase (parts ! 0)) (js ''o'') \<or> parts ! 0 = js ''on'')
                              \<and> re_test datePattern (parts ! 1)
                      then Some (split_unit 47 (parts ! 1) ! 0 @ js ''/'' @ split_unit 47 (parts ! 1) ! 1)
                      else if length parts > 2 \<and> re_test datePattern (parts ! 1)
                      then Some (parts ! 1)
                      else None);
                   startIndex = 2
               in case transDate of
                    None \<Rightarrow> parseAlternativeBOAFormat e k cleanedLine sec
                  | Some transDate' \<Rightarrow>
                      (case find_amount parts startIndex (length parts - startIndex) of
                         None \<Rightarrow> parseAlternativeBOAFormat e k cleanedLine sec
                       | Some (amountIndex, amount') \<Rightarrow>
                           (let description' =
                                  (if amountIndex > startIndex + 1
                                      \<and> re_test (re_digits_exactly 4) (parts ! (amountIndex - 1))
                                   then
                                     (if amountIndex > startIndex + 2
                                         \<and> re_test (re_digits_exactly 4) (parts ! (amountIndex - 2))
                                      then slice_join parts startIndex (amountIndex - 2)
                                      else slice_join parts startIndex (amountIndex - 1))
                                   else slice_join parts startIndex amountIndex)
                            in if description' = [] \<or> length description' < 3 then (None, k)
                               else if amount' = [] then (None, k)
                               else
                                 (let dateStr = transDate' @ js ''/2025'' in
                                  case pdf_createTransaction e k dateStr description' amount' True of
                                    Some t \<Rightarrow>
                                      if sec = Credits then
                                        (if isCardPaymentText (toLowerCase description')
                                         then (None, k + 1)
                                         else (Some (set_section_type sec t), k + 1))
                                      else (Some (set_section_type sec t), k + 1)
                                  | None \<Rightarrow> (None, k)))))))"

subsection \<open>The walk over the sections\<close>

text \<open>
  The section a header line starts: \<open>payments and other credits\<close> is looked for first.
\<close>

definition section_header :: "jstring \<Rightarrow> statement_section option" where
  "section_header line =
     (let lowerLine = trim (toLowerCase line) in
      if includes_s lowerLine (js ''payments and other credits'') then Some Credits
      else if includes_s lowerLine (js ''purchases and adjustments'') then Some Expenses
      else None)"

text \<open>\<open>line.includes(t.description.substring(0, 10))\<close>\<close>

definition from_line :: "jstring \<Rightarrow> pdf_transaction \<Rightarrow> bool" where
  "from_line line t = includes_s line (take 10 (description t))"

text \<open>
  The first pass goes through the transactions of the sweep over the whole text
  (\<open>allTransactions\<close>) for every line of a section. It changes these objects in place
  and collects references to them in \<open>processedTransactions\<close>: here the objects are the
  list \<open>all\<close>, and a reference is an index into it.
\<close>

fun match_sweep ::
  "jstring \<Rightarrow> statement_section \<Rightarrow> nat list \<Rightarrow> pdf_transaction list \<times> nat list
     \<Rightarrow> pdf_transaction list \<times> nat list" where
  "match_sweep line sec [] (all, processed) = (all, processed)"
| "match_sweep line sec (j # rest) (all, processed) =
     (let t = all ! j in
      if from_line line t then
        (if sec = Credits \<and> includes_s (toLowerCase (description t)) (js ''payment'')
              \<and> includes_s (toLowerCase (description t)) (js ''thank you'')
         then match_sweep line sec rest (all, processed)
         else
           (let t' = set_section_type sec t;
                all' = all[j := t'];
                found = list_ex (\<lambda>p. description (all' ! p) = description t'
                                     \<and> amount (all' ! p) = amount t'
                                     \<and> date (all' ! p) = date t') processed
            in match_sweep line sec rest (all', if found then processed else processed @ [j])))
      else match_sweep line sec rest (all, processed))"

fun first_pass ::
  "jstring list \<Rightarrow> statement_section option \<Rightarrow> pdf_transaction list \<times> nat list
     \<Rightarrow> pdf_transaction list \<times> nat list" where
  "first_pass [] cur st = st"
| "first_pass (line # lines) cur (all, processed) =
     (case section_header line of
        Some sec \<Rightarrow> first_pass lines (Some sec) (all, processed)
      | None \<Rightarrow>
          (case cur of
             Some sec \<Rightarrow>
               if length all > 0
               then first_pass lines cur (match_sweep line sec [0 ..< length all] (all, processed))
               else first_pass lines cur (all, processed)
           | None \<Rightarrow> first_pass lines cur (all, processed)))"

text \<open>The second pass: every line of a section that the first pass has not used.\<close>

fun second_pass ::
  "env \<Rightarrow> jstring list \<Rightarrow> statement_section option \<Rightarrow> pdf_transaction list \<Rightarrow> nat
     \<Rightarrow> pdf_transaction list \<Rightarrow> pdf_transaction list" where
  "second_pass e [] cur processedTransactions k transactions' = transactions'"
| "second_pass e (line # lines) cur processedTransactions k transactions' =
     (case section_header line of
        Some sec \<Rightarrow> second_pass e lines (Some sec) processedTransactions k transactions'
      | None \<Rightarrow>
          (case cur of
             None \<Rightarrow> second_pass e lines cur processedTransactions k transactions'
           | Some sec \<Rightarrow>
               if list_ex (from_line line) processedTransactions
               then second_pass e lines cur processedTransactions k transactions'
               else if isBankOfAmericaNonTransactionLine line
               then second_pass e lines cur processedTransactions k transactions'
               else
                 (case parseBankOfAmericaTabularLine e k line sec of
                    (Some t, k') \<Rightarrow>
                      second_pass e lines cur processedTransactions k' (transactions' @ [t])
                  | (None, k') \<Rightarrow>
                      second_pass e lines cur processedTransactions k' transactions')))"

text \<open>
  \<open>parseBankOfAmericaCreditCardSections\<close>. The sweep \<open>extractAllTransactionPatterns\<close>
  over the joined lines (OCR repairs, one of them drawn from \<open>Math.random\<close>) is not
  modelled: its result \<open>allTransactions\<close> is an argument, and so is the count \<open>k\<close> of ids
  drawn so far.
\<close>

definition parseBankOfAmericaCreditCardSections ::
  "env \<Rightarrow> nat \<Rightarrow> pdf_transaction list \<Rightarrow> jstring list \<Rightarrow> pdf_transaction list" where
  "parseBankOfAmericaCreditCardSections e k allTransactions lines =
     (let (all, processed) = first_pass lines None (allTransactions, []);
          processedTransactions = map (\<lambda>j. all ! j) processed
      in second_pass e lines None processedTransactions k processedTransactions)"

section \<open>Example data\<close>

definition empty_store :: store where
  "empty_store = \<lparr>transactions = [], debitCardBalance = 0, events = []\<rparr>"


text \<open>
  A store holding one manually entered expense, and the update the edit form sends when
  the user changes its description and leaves the other fields as they are.
\<close>

definition parking_store :: store where
  "parking_store =
     addManualTransaction getInstance (js ''tx1'') empty_store
       \<lparr>m_date = 1718323200000, m_description = js ''Parking garage'', m_amount = 12,
        m_category = js ''Transportation'', m_type = Expense, m_originalAmount = None,
        m_confidence = None\<rparr>"

definition parking_edit :: transaction_update where
  "parking_edit =
     \<lparr>u_id = None, u_date = Some 1718323200000, u_description = Some (js ''Starbucks Coffee''),
      u_amount = Some 12, u_category = Some (js ''Transportation''), u_type = Some Expense,
      u_source = None, u_originalAmount = None, u_confidence = None\<rparr>"





text \<open>
  An environment: the year 2025, a runtime whose \<open>new Date(string)\<close> understands
  nothing beyond what the parsers try themselves, and ids \<open>id0\<close>, \<open>id1\<close>, ...
\<close>

definition env_2025 :: env where
  "env_2025 =
     \<lparr>currentYear = 2025, dateFromString = (\<lambda>s. None),
      todayLocaleDateString = js ''6/15/2025'', generateId = (\<lambda>k. js ''id'' @ digits_of k)\<rparr>"

definition mk_pdf_transaction ::
  "jstring \<Rightarrow> int \<Rightarrow> jstring \<Rightarrow> rat \<Rightarrow> jstring \<Rightarrow> transaction_type \<Rightarrow> pdf_transaction" where
  "mk_pdf_transaction i d desc a cat ty =
     \<lparr>id_t = i, date = d, description = desc, amount = a, category = cat, type_t = ty,
      source = js ''upload''\<rparr>"

text \<open>
  Four transactions of one statement as two strategies found them: the first and the
  third are the same purchase, the fourth is another purchase at the same merchant on
  the same day.
\<close>

definition found_twice :: "pdf_transaction list" where
  "found_twice =
     [mk_pdf_transaction (js ''id0'') 1748908800000 (js ''IBI*FABLETICS.COM'') (2821 / 100)
        (js ''Other'') Expense,
      mk_pdf_transaction (js ''id1'') 1748995200000 (js ''WWW.PACSUN.COM'') (4500 / 100)
        (js ''Other'') Expense,
      mk_pdf_transaction (js ''id2'') 1748908800000 (js ''IBI*Fabletics.com  '') (2821 / 100)
        (js ''Other'') Expense,
      mk_pdf_transaction (js ''id3'') 1748908800000 (js ''IBI*FABLETICS.COM'') (1000 / 100)
        (js ''Other'') Expense]"

text \<open>What the form for manual entry sends when the user types the amount 0.\<close>

definition zero_entry :: manual_transaction where
  "zero_entry =
     \<lparr>m_date = 1718323200000, m_description = js ''Free sample'', m_amount = 0,
      m_category = js ''Shopping'', m_type = Expense, m_originalAmount = None,
      m_confidence = None\<rparr>"

text \<open>
  The credits section of a card statement: the payment of last month's bill, in the
  layout of the statement and as a line without its dates.
\<close>

definition credits_section :: "jstring list" where
  "credits_section =
     [js ''Payments and Other Credits'',
      js ''06/15 06/15 PAYMENT - THANK YOU 1234 5678 -500.00'',
      js ''Payment  From CHK 500.00'']"

section \<open>Properties of the store\<close>

lemma findIndex_Some_less: "findIndex P xs = Some i \<Longrightarrow> i < length xs"
  by (induction xs arbitrary: i) (auto split: if_splits option.splits)

lemma findIndex_Some_holds: "findIndex P xs = Some i \<Longrightarrow> P (xs ! i)"
  by (induction xs arbitrary: i) (auto split: if_splits option.splits)

lemma findIndex_Some_first: "findIndex P xs = Some i \<Longrightarrow> j < i \<Longrightarrow> \<not> P (xs ! j)"
proof (induction xs arbitrary: i j)
  case Nil
  then show ?case by simp
next
  case (Cons x xs)
  then show ?case
    by (cases j) (auto split: if_splits option.splits)
qed



lemma addTransactions_loop_filter:
  "addTransactions_loop cz s news acc =
     acc @ filter (\<lambda>t. \<not> isDuplicateTransaction s t)
            (map (\<lambda>t. t\<lparr>category :=
                          categorizeTransaction cz (description t) (amount t) (Some (type_t t))\<rparr>)
               news)"
  by (induction news arbitrary: acc) (simp_all add: Let_def)







lemma parking_store_transactions:
  "transactions parking_store =
     [\<lparr>id_t = js ''tx1'', date = 1718323200000, description = js ''Parking garage'',
       amount = 12, category = js ''Transportation'', type_t = Expense,
       source = js ''manual'', originalAmount = None, confidence = None\<rparr>]"
  by code_simp

lemma parking_store_updated:
  "transactions (updateTransaction parking_store (js ''tx1'') parking_edit) =
     [\<lparr>id_t = js ''tx1'', date = 1718323200000, description = js ''Starbucks Coffee'',
       amount = 12, category = js ''Transportation'', type_t = Expense,
       source = js ''manual'', originalAmount = None, confidence = None\<rparr>]"
  by (simp add: updateTransaction_def parking_store_transactions parking_edit_def spread_def
        save_and_notify_def)

lemma starbucks_category:
  "categorizeTransaction getInstance (js ''Starbucks Coffee'') 12 (Some Expense) =
     js ''Food & Dining''"
  by code_simp

lemma transportation_not_food: "js ''Transportation'' \<noteq> js ''Food & Dining''"
  by (simp add: js_def)

text \<open>
  Claim C7, as stated: after \<open>updateTransaction\<close> the stored category is the categorizer's
  result for the updated description, amount and type. It fails: the edit of the
  description of the parking expense leaves the category "Transportation", where the
  categorizer gives "Food & Dining" for the updated fields.
\<close>

theorem updateTransaction_keeps_category_counterexample:
  "category (transactions (updateTransaction parking_store (js ''tx1'') parking_edit) ! 0)
     = js ''Transportation''
   \<and> categorizeTransaction getInstance
        (description (transactions (updateTransaction parking_store (js ''tx1'') parking_edit) ! 0))
        (amount (transactions (updateTransaction parking_store (js ''tx1'') parking_edit) ! 0))
        (Some (type_t (transactions (updateTransaction parking_store (js ''tx1'') parking_edit) ! 0)))
     = js ''Food & Dining''
   \<and> category (transactions (updateTransaction parking_store (js ''tx1'') parking_edit) ! 0)
     \<noteq> categorizeTransaction getInstance
        (description (transactions (updateTransaction parking_store (js ''tx1'') parking_edit) ! 0))
        (amount (transactions (updateTransaction parking_store (js ''tx1'') parking_edit) ! 0))
        (Some (type_t (transactions (updateTransaction parking_store (js ''tx1'') parking_edit) ! 0)))"
  by (simp add: parking_store_updated starbucks_category transportation_not_food)

text \<open>
  Claim C7, amended. \<open>updateTransaction\<close> overwrites, in the first stored transaction with
  the given id, the fields the update carries and leaves the list as it is when no
  transaction has that id; no categorization runs: afterwards the category of the updated
  transaction is the update's category when it carries one, and the category stored
  before otherwise.
\<close>

theorem updateTransaction_merges:
  "transactions (updateTransaction s i u) =
     (case findIndex (\<lambda>t. id_t t = i) (transactions s) of
        None \<Rightarrow> transactions s
      | Some k \<Rightarrow> (transactions s)[k := spread (transactions s ! k) u])
   \<and> (case findIndex (\<lambda>t. id_t t = i) (transactions s) of
        None \<Rightarrow> True
      | Some k \<Rightarrow>
          category (transactions (updateTransaction s i u) ! k) =
            (case u_category u of Some c \<Rightarrow> c | None \<Rightarrow> category (transactions s ! k)))"
proof (cases "findIndex (\<lambda>t. id_t t = i) (transactions s)")
  case None
  then show ?thesis by (simp add: updateTransaction_def)
next
  case (Some k)
  then have "k < length (transactions s)" by (rule findIndex_Some_less)
  with Some show ?thesis
    by (simp add: updateTransaction_def save_and_notify_def spread_def)
qed

theorem updateTransaction_merges_witness:
  "findIndex (\<lambda>t. id_t t = js ''tx1'') (transactions parking_store) = Some 0
   \<and> transactions (updateTransaction parking_store (js ''tx1'') parking_edit) =
       [\<lparr>id_t = js ''tx1'', date = 1718323200000, description = js ''Starbucks Coffee'',
         amount = 12, category = js ''Transportation'', type_t = Expense,
         source = js ''manual'', originalAmount = None, confidence = None\<rparr>]"
proof -
  have idx: "findIndex (\<lambda>t. id_t t = js ''tx1'') (transactions parking_store) = Some 0"
    by (simp add: parking_store_transactions)
  from updateTransaction_merges [of parking_store "js ''tx1''" parking_edit] idx
  have "transactions (updateTransaction parking_store (js ''tx1'') parking_edit) =
          (transactions parking_store)[0 := spread (transactions parking_store ! 0) parking_edit]"
    by simp
  with idx show ?thesis
    by (simp add: parking_store_transactions spread_def parking_edit_def)
qed

text \<open>
  Claim C10. \<open>addManualTransaction\<close> appends one transaction whose category is what the
  categorizer returns for the supplied description, amount and type; the category the
  caller supplies has no influence on the stored transaction.
\<close>

theorem addManualTransaction_recategorizes:
  "transactions (addManualTransaction cz generatedId s t) =
     transactions s @
       [\<lparr>id_t = generatedId, date = m_date t, description = m_description t,
         amount = m_amount t,
         category = categorizeTransaction cz (m_description t) (m_amount t) (Some (m_type t)),
         type_t = m_type t, source = js ''manual'', originalAmount = m_originalAmount t,
         confidence = m_confidence t\<rparr>]
   \<and> addManualTransaction cz generatedId s (t\<lparr>m_category := c\<rparr>) =
       addManualTransaction cz generatedId s t"
  by (simp add: addManualTransaction_def save_and_notify_def)

section \<open>Properties of the statement parser\<close>

text \<open>
  Claim C8. The classifier returns expense for -50 "Grocery Store", income for 200
  "Direct Deposit Payroll", and income for -30 "Merchant Refund".
\<close>

theorem determineTransactionType_examples:
  "determineTransactionType (- 50) (js ''Grocery Store'') = Expense
   \<and> determineTransactionType 200 (js ''Direct Deposit Payroll'') = Income
   \<and> determineTransactionType (- 30) (js ''Merchant Refund'') = Income"
  by code_simp

text \<open>
  Claim C9. \<open>parseFile\<close> on a file of size 0 fails with the error "File is empty. Please
  upload a file with transaction data." and has called none of the three strategies,
  whatever they are.
\<close>

theorem parseFile_empty_file:
  "file_size f = 0 \<Longrightarrow>
     parseFile parseCSV parseText parsePDF f =
       (Inl (Error (js ''File is empty. Please upload a file with transaction data.'')), [])"
  by (simp add: parseFile_def)

theorem parseFile_empty_file_witness:
  "file_size \<lparr>file_name = js ''statement.csv'', file_type = js ''text/csv'', file_size = 0\<rparr> = 0
   \<and> parseFile (\<lambda>f. Inr []) (\<lambda>f. Inr []) (\<lambda>f. Inl NotAnError)
        \<lparr>file_name = js ''statement.csv'', file_type = js ''text/csv'', file_size = 0\<rparr> =
       (Inl (Error (js ''File is empty. Please upload a file with transaction data.'')), [])"
  using parseFile_empty_file
    [of "\<lparr>file_name = js ''statement.csv'', file_type = js ''text/csv'', file_size = 0\<rparr>"
        "\<lambda>f. Inr []" "\<lambda>f. Inr []" "\<lambda>f. Inl NotAnError"]
  by simp

section \<open>Properties of the PDF statement parser\<close>

lemma pdf_createTransaction_Some:
  assumes "pdf_createTransaction e k dateStr desc amountStr allow = Some t"
  shows "\<exists>a. originalAmount_of amountStr = Some a \<and> a \<noteq> 0 \<and> amount t = \<bar>a\<bar>
             \<and> (a < 0 \<longrightarrow> type_t t = Income)"
proof (cases "originalAmount_of amountStr")
  case None
  with assms show ?thesis by (simp add: pdf_createTransaction_def)
next
  case (Some a)
  then have "a \<noteq> 0"
    by (auto simp: originalAmount_of_def Let_def split: option.splits if_splits)
  moreover from assms Some have "amount t = \<bar>a\<bar> \<and> (a < 0 \<longrightarrow> type_t t = Income)"
    by (auto simp: pdf_createTransaction_def Let_def isReturnTransaction_def
             split: option.splits if_splits)
  ultimately show ?thesis using Some by simp
qed






lemma removeDuplicates_loop_append:
  "removeDuplicates_loop ts seen unique = unique @ removeDuplicates_loop ts seen []"
proof (induction ts arbitrary: seen unique)
  case Nil
  then show ?case by simp
next
  case (Cons t ts)
  define seen' where "seen' = seen(exactKey t \<mapsto> t)"
  have keep: "removeDuplicates_loop ts seen' (unique @ [t]) =
              unique @ removeDuplicates_loop ts seen' [t]"
    using Cons.IH [of seen' "unique @ [t]"] Cons.IH [of seen' "[t]"] by simp
  have drop: "removeDuplicates_loop ts seen unique = unique @ removeDuplicates_loop ts seen []"
    by (rule Cons.IH)
  have unfold: "removeDuplicates_loop (t # ts) seen us =
     (if seen (exactKey t) \<noteq> None then removeDuplicates_loop ts seen us
      else
        (case seen (fuzzyKey t) of
           Some fuzzyMatch \<Rightarrow>
             if amount t = amount fuzzyMatch \<and> description t \<noteq> description fuzzyMatch
             then removeDuplicates_loop ts seen us
             else removeDuplicates_loop ts seen' (us @ [t])
         | None \<Rightarrow> removeDuplicates_loop ts seen' (us @ [t])))" for us
    unfolding seen'_def by (rule removeDuplicates_loop.simps)
  show ?case
    unfolding unfold [of unique] unfold [of "[]"] using keep drop
    by (auto split: option.splits)
qed

text \<open>
  A second pass over the result of a pass, started with the same \<open>seen\<close>, keeps all of
  it: each transaction meets the map it met when it was kept.
\<close>

lemma removeDuplicates_loop_idem:
  "removeDuplicates_loop (removeDuplicates_loop ts seen []) seen [] =
     removeDuplicates_loop ts seen []"
proof (induction ts arbitrary: seen)
  case Nil
  then show ?case by simp
next
  case (Cons t ts)
  define seen' where "seen' = seen(exactKey t \<mapsto> t)"
  define ys where "ys = removeDuplicates_loop ts seen' []"
  have unfold: "removeDuplicates_loop (t # zs) seen [] =
     (if seen (exactKey t) \<noteq> None then removeDuplicates_loop zs seen []
      else
        (case seen (fuzzyKey t) of
           Some fuzzyMatch \<Rightarrow>
             if amount t = amount fuzzyMatch \<and> description t \<noteq> description fuzzyMatch
             then removeDuplicates_loop zs seen []
             else removeDuplicates_loop zs seen' [t]
         | None \<Rightarrow> removeDuplicates_loop zs seen' [t]))" for zs
    unfolding seen'_def by (simp split: option.splits)
  have kept: "removeDuplicates_loop ts seen' [t] = t # ys"
    using removeDuplicates_loop_append [of ts seen' "[t]"] by (simp add: ys_def)
  have ih: "removeDuplicates_loop ys seen' [] = ys"
    unfolding ys_def by (rule Cons.IH)
  have again: "removeDuplicates_loop ys seen' [t] = t # ys"
    using removeDuplicates_loop_append [of ys seen' "[t]"] ih by simp
  have dropped: "removeDuplicates_loop (removeDuplicates_loop ts seen []) seen [] =
                 removeDuplicates_loop ts seen []"
    by (rule Cons.IH)
  note unfold' = unfold [of ts] unfold [of ys]
  show ?case
  proof (cases "seen (exactKey t) \<noteq> None")
    case True
    then have first: "removeDuplicates_loop (t # ts) seen [] = removeDuplicates_loop ts seen []"
      by (simp add: unfold' del: removeDuplicates_loop.simps)
    show ?thesis by (simp only: first dropped)
  next
    case notSeen: False
    show ?thesis
    proof (cases "seen (fuzzyKey t)")
      case None
      have first: "removeDuplicates_loop (t # ts) seen [] = t # ys"
        using notSeen None kept by (simp add: unfold' del: removeDuplicates_loop.simps)
      have second: "removeDuplicates_loop (t # ys) seen [] = t # ys"
        using notSeen None again by (simp add: unfold' del: removeDuplicates_loop.simps)
      show ?thesis by (simp only: first second)
    next
      case (Some fuzzyMatch)
      show ?thesis
      proof (cases "amount t = amount fuzzyMatch \<and> description t \<noteq> description fuzzyMatch")
        case True
        then have first: "removeDuplicates_loop (t # ts) seen [] = removeDuplicates_loop ts seen []"
          using notSeen Some by (simp add: unfold' del: removeDuplicates_loop.simps)
        show ?thesis by (simp only: first dropped)
      next
        case False
        have first: "removeDuplicates_loop (t # ts) seen [] = t # ys"
          using notSeen Some False kept by (auto simp add: unfold' simp del: removeDuplicates_loop.simps)
        have second: "removeDuplicates_loop (t # ys) seen [] = t # ys"
          using notSeen Some False again by (auto simp add: unfold' simp del: removeDuplicates_loop.simps)
        show ?thesis by (simp only: first second)
      qed
    qed
  qed
qed

text \<open>
  Claim C5. \<open>removeDuplicates\<close> is idempotent: applied to its own result, it returns
  that result.
\<close>

theorem removeDuplicates_idempotent:
  "removeDuplicates (removeDuplicates ts) = removeDuplicates ts"
  by (simp add: removeDuplicates_def removeDuplicates_loop_idem)

theorem removeDuplicates_idempotent_witness:
  "removeDuplicates found_twice =
     [mk_pdf_transaction (js ''id0'') 1748908800000 (js ''IBI*FABLETICS.COM'') (2821 / 100)
        (js ''Other'') Expense,
      mk_pdf_transaction (js ''id1'') 1748995200000 (js ''WWW.PACSUN.COM'') (4500 / 100)
        (js ''Other'') Expense,
      mk_pdf_transaction (js ''id3'') 1748908800000 (js ''IBI*FABLETICS.COM'') (1000 / 100)
        (js ''Other'') Expense]
   \<and> removeDuplicates
        [mk_pdf_transaction (js ''id0'') 1748908800000 (js ''IBI*FABLETICS.COM'') (2821 / 100)
           (js ''Other'') Expense,
         mk_pdf_transaction (js ''id1'') 1748995200000 (js ''WWW.PACSUN.COM'') (4500 / 100)
           (js ''Other'') Expense,
         mk_pdf_transaction (js ''id3'') 1748908800000 (js ''IBI*FABLETICS.COM'') (1000 / 100)
           (js ''Other'') Expense] =
       [mk_pdf_transaction (js ''id0'') 1748908800000 (js ''IBI*FABLETICS.COM'') (2821 / 100)
          (js ''Other'') Expense,
        mk_pdf_transaction (js ''id1'') 1748995200000 (js ''WWW.PACSUN.COM'') (4500 / 100)
          (js ''Other'') Expense,
        mk_pdf_transaction (js ''id3'') 1748908800000 (js ''IBI*FABLETICS.COM'') (1000 / 100)
          (js ''Other'') Expense]"
proof -
  have first: "removeDuplicates found_twice =
     [mk_pdf_transaction (js ''id0'') 1748908800000 (js ''IBI*FABLETICS.COM'') (2821 / 100)
        (js ''Other'') Expense,
      mk_pdf_transaction (js ''id1'') 1748995200000 (js ''WWW.PACSUN.COM'') (4500 / 100)
        (js ''Other'') Expense,
      mk_pdf_transaction (js ''id3'') 1748908800000 (js ''IBI*FABLETICS.COM'') (1000 / 100)
        (js ''Other'') Expense]"
    by code_simp
  from removeDuplicates_idempotent [of found_twice] first show ?thesis
    by simp
qed

section \<open>Amounts of created transactions\<close>

lemma createTransaction_Some:
  assumes "createTransaction e cz k dateStr desc amountStr = Some t"
  shows "\<exists>a. originalAmount t = Some a \<and> a \<noteq> 0 \<and> amount t = \<bar>a\<bar>"
  using assms
  by (auto simp: createTransaction_def Let_def split: option.splits if_splits)

text \<open>
  Claim C6, as stated: every transaction held by the store has a positive amount, a zero
  amount being rejected also by \<open>addManualTransaction\<close>. It fails: a manual entry with the
  amount 0 is stored.
\<close>

theorem addManualTransaction_zero_amount_counterexample:
  "transactions (addManualTransaction getInstance (js ''tx1'') empty_store zero_entry) \<noteq> []
   \<and> amount (last (transactions
        (addManualTransaction getInstance (js ''tx1'') empty_store zero_entry))) = 0
   \<and> \<not> 0 < amount (last (transactions
        (addManualTransaction getInstance (js ''tx1'') empty_store zero_entry)))"
  by (simp add: addManualTransaction_def save_and_notify_def empty_store_def zero_entry_def)

text \<open>
  Claim C6, amended. A transaction created by \<open>createTransaction\<close> of the simple parser
  carries its original amount, which is not zero, and has its magnitude as amount, so a
  positive amount; a transaction created by \<open>createTransaction\<close> of the PDF parser has a
  positive amount (and no original amount); \<open>addTransactions\<close> adds transactions with
  the amount and the original amount they come with. \<open>addManualTransaction\<close> checks
  nothing: it stores the amount and the original amount it is given.
\<close>

theorem created_amounts_positive:
  "(\<forall>t. createTransaction e cz k dateStr desc amountStr = Some t \<longrightarrow>
        (\<exists>a. originalAmount t = Some a \<and> amount t = \<bar>a\<bar>) \<and> 0 < amount t)
   \<and> (\<forall>t. pdf_createTransaction e k dateStr desc amountStr allow = Some t \<longrightarrow> 0 < amount t)
   \<and> (\<forall>t \<in> set (transactions (addTransactions cz s news)).
        t \<in> set (transactions s)
        \<or> (\<exists>n \<in> set news. amount t = amount n \<and> originalAmount t = originalAmount n))
   \<and> amount (last (transactions (addManualTransaction cz i s m))) = m_amount m
   \<and> originalAmount (last (transactions (addManualTransaction cz i s m))) = m_originalAmount m"
proof (intro conjI allI impI ballI)
  fix t
  assume "createTransaction e cz k dateStr desc amountStr = Some t"
  then obtain a where a: "originalAmount t = Some a" "a \<noteq> 0" "amount t = \<bar>a\<bar>"
    using createTransaction_Some by blast
  then show "\<exists>a. originalAmount t = Some a \<and> amount t = \<bar>a\<bar>" by blast
  from a show "0 < amount t" by simp
next
  fix t
  assume "pdf_createTransaction e k dateStr desc amountStr allow = Some t"
  then obtain a where "a \<noteq> 0" "amount t = \<bar>a\<bar>"
    using pdf_createTransaction_Some by blast
  then show "0 < amount t" by simp
next
  fix t
  assume "t \<in> set (transactions (addTransactions cz s news))"
  then have "t \<in> set (transactions s) \<or>
        t \<in> set (filter (\<lambda>t. \<not> isDuplicateTransaction s t)
           (map (\<lambda>t. t\<lparr>category :=
                        categorizeTransaction cz (description t) (amount t) (Some (type_t t))\<rparr>)
              news))"
    by (auto simp: addTransactions_def Let_def addTransactions_loop_filter save_and_notify_def
             split: if_splits)
  then show "t \<in> set (transactions s)
        \<or> (\<exists>n \<in> set news. amount t = amount n \<and> originalAmount t = originalAmount n)"
    by auto
next
  show "amount (last (transactions (addManualTransaction cz i s m))) = m_amount m"
    by (simp add: addManualTransaction_def save_and_notify_def)
  show "originalAmount (last (transactions (addManualTransaction cz i s m))) = m_originalAmount m"
    by (simp add: addManualTransaction_def save_and_notify_def)
qed

lemma starbucks_row:
  "createTransaction env_2025 getInstance 0 (js ''03/15/2024'') (js ''Starbucks Coffee'')
     (js ''-5.75'') =
   Some \<lparr>id_t = js ''id0'', date = 1710460800000, description = js ''Starbucks Coffee'',
          amount = 575 / 100, category = js ''Food & Dining'', type_t = Expense,
          source = js ''upload'', originalAmount = Some (- (575 / 100)),
          confidence = Some (8 / 10)\<rparr>"
  by code_simp

theorem created_amounts_positive_witness:
  "createTransaction env_2025 getInstance 0 (js ''03/15/2024'') (js ''Starbucks Coffee'')
     (js ''-5.75'') \<noteq> None
   \<and> 0 < amount (the (createTransaction env_2025 getInstance 0 (js ''03/15/2024'')
                        (js ''Starbucks Coffee'') (js ''-5.75'')))
   \<and> amount (the (createTransaction env_2025 getInstance 0 (js ''03/15/2024'')
                        (js ''Starbucks Coffee'') (js ''-5.75''))) = 575 / 100"
proof -
  note inst = created_amounts_positive
    [of env_2025 getInstance 0 "js ''03/15/2024''" "js ''Starbucks Coffee''" "js ''-5.75''"
        False empty_store "[]" "js ''tx1''" zero_entry]
  from inst starbucks_row
  have "0 < amount (the (createTransaction env_2025 getInstance 0 (js ''03/15/2024'')
                        (js ''Starbucks Coffee'') (js ''-5.75'')))"
    by (metis option.sel)
  with starbucks_row show ?thesis by simp
qed

section \<open>Properties of the Bank of America path\<close>

lemma set_section_type_fields:
  "type_t (set_section_type sec t) = (if sec = Credits then Income else Expense)"
  "sec = Credits \<Longrightarrow> category (set_section_type sec t) = js ''Refunds''"
  by (simp_all add: set_section_type_def)

lemma parseAlternative_loop_section:
  "parseAlternative_loop e k line sec is = (Some t, k') \<Longrightarrow>
     type_t t = (if sec = Credits then Income else Expense)
     \<and> (sec = Credits \<longrightarrow> category t = js ''Refunds'')"
  by (induction "is") (auto simp: set_section_type_fields split: option.splits)

text \<open>
  Every transaction the line parser returns has the type of its section, and the
  category Refunds in the credits section.
\<close>

lemma parseBankOfAmericaTabularLine_section:
  assumes "parseBankOfAmericaTabularLine e k line sec = (Some t, k')"
  shows "type_t t = (if sec = Credits then Income else Expense)
         \<and> (sec = Credits \<longrightarrow> category t = js ''Refunds'')"
proof -
  have alt: "parseAlternativeBOAFormat e k l sec = (Some t, k') \<Longrightarrow> ?thesis" for l
    unfolding parseAlternativeBOAFormat_def by (rule parseAlternative_loop_section)
  from assms show ?thesis
    unfolding parseBankOfAmericaTabularLine_def Let_def
    by (auto simp: set_section_type_fields dest!: alt
             split: if_splits option.splits prod.splits)
qed

text \<open>
  A line that contains one of the three payment texts gives no transaction, in either
  section.
\<close>

lemma parseBankOfAmericaTabularLine_card_payment:
  "isCardPaymentText (toLowerCase (trim line)) \<Longrightarrow>
     parseBankOfAmericaTabularLine e k line sec = (None, k)"
  by (simp add: parseBankOfAmericaTabularLine_def)

text \<open>
  Claim C2. The walk over the credits section of \<open>credits_section\<close>, the sweep having
  found nothing, returns both payments of the card's bill as incomes of category
  Refunds, where the claim has no transaction for such a line. The parser's own
  \<open>isPaymentTransaction\<close> and the store's \<open>isCreditCardPayment\<close> know both descriptions as
  payments.
\<close>

theorem parseBankOfAmericaCreditCardSections_keeps_card_payment:
  "parseBankOfAmericaCreditCardSections env_2025 0 [] credits_section =
     [mk_pdf_transaction (js ''id0'') 1749945600000 (js ''PAYMENT - THANK YOU'') 500
        (js ''Refunds'') Income,
      mk_pdf_transaction (js ''id1'') 1749945600000 (js ''Payment From CHK'') 500
        (js ''Refunds'') Income]
   \<and> isPaymentTransaction (js ''PAYMENT - THANK YOU'')
   \<and> isCreditCardPayment (js ''PAYMENT - THANK YOU'')
   \<and> isPaymentTransaction (js ''Payment From CHK'')
   \<and> isCreditCardPayment (js ''Payment From CHK'')"
  by code_simp

end
